theory Spec2Isabelle
  imports Main
begin

section \<open>JavaScript values used by the handlers\<close>

text \<open>
  Numbers that the handlers read are integers (identifiers, seconds, milliseconds,
  byte counts); a \<open>Date\<close> is its time value, the milliseconds since the epoch.
  A string is the list of the bytes of its UTF-8 form, so a character outside ASCII takes
  two or three list elements; a \<open>Buffer\<close> is a list of byte values.
\<close>

type_synonym buffer = "nat list"

text \<open>\<open>Number.prototype.toString\<close> on an integer: decimal digits, a minus sign first.\<close>

definition digit_char :: "nat \<Rightarrow> char" where
  "digit_char d = char_of (48 + d)"

fun show_nat :: "nat \<Rightarrow> string" where
  "show_nat n = (if n < 10 then [digit_char n] else show_nat (n div 10) @ [digit_char (n mod 10)])"

declare show_nat.simps [simp del]

definition toString :: "int \<Rightarrow> string" where
  "toString i = (if i < 0 then CHR ''-'' # show_nat (nat (- i)) else show_nat (nat i))"

text \<open>\<open>String.prototype.padStart\<close> with a one-character filler.\<close>

definition padStart :: "nat \<Rightarrow> char \<Rightarrow> string \<Rightarrow> string" where
  "padStart n c s = replicate (n - length s) c @ s"

text \<open>\<open>startsWith\<close> and \<open>endsWith\<close>.\<close>

definition startsWith :: "string \<Rightarrow> string \<Rightarrow> bool" where
  "startsWith s p = (take (length p) s = p)"

definition endsWith :: "string \<Rightarrow> string \<Rightarrow> bool" where
  "endsWith s p = (length p \<le> length s \<and> drop (length s - length p) s = p)"

text \<open>\<open>toLowerCase\<close> on the letters A to Z; every other byte is left as it is.\<close>

definition lower_char :: "char \<Rightarrow> char" where
  "lower_char c =
     (if (65::nat) \<le> of_char c \<and> (of_char c :: nat) \<le> 90 then char_of ((of_char c :: nat) + 32) else c)"

definition toLowerCase :: "string \<Rightarrow> string" where
  "toLowerCase s = map lower_char s"

text \<open>\<open>split\<close> on a one-character separator: the empty string gives one empty piece.\<close>

fun split_on :: "char \<Rightarrow> string \<Rightarrow> string list" where
  "split_on c [] = [[]]"
| "split_on c (x # xs) =
     (if x = c then [] # split_on c xs
      else (case split_on c xs of [] \<Rightarrow> [[x]] | y # ys \<Rightarrow> (x # y) # ys))"

text \<open>
  The characters \<open>String.prototype.trim\<close> removes, each as its UTF-8 bytes: the white
  space of ECMAScript (TAB, VT, FF, the byte order mark U+FEFF and the space separators
  U+0020, U+00A0, U+1680, U+2000 to U+200A, U+202F, U+205F, U+3000) and its line
  terminators (LF, CR, U+2028, U+2029).
\<close>

definition white_space :: "string list" where
  "white_space =
     [[CHR 0x09], [CHR 0x0A], [CHR 0x0B], [CHR 0x0C], [CHR 0x0D], [CHR 0x20],
      [CHR 0xC2, CHR 0xA0],
      [CHR 0xE1, CHR 0x9A, CHR 0x80],
      [CHR 0xE2, CHR 0x80, CHR 0x80], [CHR 0xE2, CHR 0x80, CHR 0x81],
      [CHR 0xE2, CHR 0x80, CHR 0x82], [CHR 0xE2, CHR 0x80, CHR 0x83],
      [CHR 0xE2, CHR 0x80, CHR 0x84], [CHR 0xE2, CHR 0x80, CHR 0x85],
      [CHR 0xE2, CHR 0x80, CHR 0x86], [CHR 0xE2, CHR 0x80, CHR 0x87],
      [CHR 0xE2, CHR 0x80, CHR 0x88], [CHR 0xE2, CHR 0x80, CHR 0x89],
      [CHR 0xE2, CHR 0x80, CHR 0x8A],
      [CHR 0xE2, CHR 0x80, CHR 0xA8], [CHR 0xE2, CHR 0x80, CHR 0xA9],
      [CHR 0xE2, CHR 0x80, CHR 0xAF],
      [CHR 0xE2, CHR 0x81, CHR 0x9F],
      [CHR 0xE3, CHR 0x80, CHR 0x80],
      [CHR 0xEF, CHR 0xBB, CHR 0xBF]]"

text \<open>Removing from the front of a string every piece that is one of the patterns given.\<close>

function strip_leading :: "string list \<Rightarrow> string \<Rightarrow> string" where
  "strip_leading pats s =
     (case find (\<lambda>p. p \<noteq> [] \<and> startsWith s p) pats of
        None \<Rightarrow> s
      | Some p \<Rightarrow> strip_leading pats (drop (length p) s))"
  by pat_completeness auto
termination
proof (relation "measure (\<lambda>(pats, s). length s)")
  show "wf (measure (\<lambda>(pats, s). length s))"
    by simp
next
  fix pats :: "string list" and s p :: string
  assume "find (\<lambda>p. p \<noteq> [] \<and> startsWith s p) pats = Some p"
  then have "p \<noteq> []" and "take (length p) s = p"
    by (auto simp: find_Some_iff startsWith_def)
  then have "s \<noteq> []" and "0 < length p"
    by auto
  then show "((pats, drop (length p) s), (pats, s)) \<in> measure (\<lambda>(pats, s). length s)"
    by simp
qed

declare strip_leading.simps [simp del]

text \<open>
  \<open>trim\<close>: white space is removed at both ends; at the end through the reversed string and
  the reversed patterns.
\<close>

definition trimStart :: "string \<Rightarrow> string" where
  "trimStart s = strip_leading white_space s"

definition trimEnd :: "string \<Rightarrow> string" where
  "trimEnd s = rev (strip_leading (map rev white_space) (rev s))"

definition trim :: "string \<Rightarrow> string" where
  "trim s = trimEnd (trimStart s)"

text \<open>\<open>a || b\<close> on an optional string (absent and empty are falsy) and on a number.\<close>

definition or_string :: "string option \<Rightarrow> string \<Rightarrow> string" where
  "or_string a b = (case a of None \<Rightarrow> b | Some s \<Rightarrow> if s = [] then b else s)"

definition or_number :: "int option \<Rightarrow> int \<Rightarrow> int" where
  "or_number a b = (case a of None \<Rightarrow> b | Some n \<Rightarrow> if n = 0 then b else n)"

section \<open>The UTC clock fields of a Date\<close>

definition getUTCHours :: "int \<Rightarrow> int" where
  "getUTCHours t = (t div 3600000) mod 24"

definition getUTCMinutes :: "int \<Rightarrow> int" where
  "getUTCMinutes t = (t div 60000) mod 60"

definition getUTCSeconds :: "int \<Rightarrow> int" where
  "getUTCSeconds t = (t div 1000) mod 60"

definition getUTCMilliseconds :: "int \<Rightarrow> int" where
  "getUTCMilliseconds t = t mod 1000"

section \<open>The catalog: recordings and transcriptions\<close>

record recording =
  rec_id :: string
  userId :: string
  deviceSn :: string
  plaudFileId :: string
  filename :: string
  duration :: int
  startTime :: int
  endTime :: int
  filesize :: int
  fileMd5 :: string
  storageType :: string
  storagePath :: string
  downloadedAt :: int
  plaudVersion :: string

record transcription =
  t_recordingId :: string
  t_userId :: string
  t_text :: "string option"

section \<open>The export route: SRT and VTT\<close>

text \<open>
  \<open>new Map(userTranscriptions.map((t) => [t.recordingId, t]))\<close>: a later entry for
  the same recording replaces an earlier one.
\<close>

definition transcriptionMap :: "transcription list \<Rightarrow> (string \<rightharpoonup> transcription)" where
  "transcriptionMap ts = foldl (\<lambda>m t. m(t_recordingId t \<mapsto> t)) Map.empty ts"

text \<open>\<open>transcription?.text\<close>, with the absent and the empty text both falsy.\<close>

definition transcript_text :: "transcription option \<Rightarrow> string" where
  "transcript_text t = (case t of None \<Rightarrow> [] | Some tr \<Rightarrow> (case t_text tr of None \<Rightarrow> [] | Some s \<Rightarrow> s))"

definition formatSRTTime :: "int \<Rightarrow> string" where
  "formatSRTTime date =
     (let hours = padStart 2 (CHR ''0'') (toString (getUTCHours date));
          minutes = padStart 2 (CHR ''0'') (toString (getUTCMinutes date));
          seconds = padStart 2 (CHR ''0'') (toString (getUTCSeconds date));
          ms = padStart 3 (CHR ''0'') (toString (getUTCMilliseconds date))
      in hours @ '':'' @ minutes @ '':'' @ seconds @ '','' @ ms)"

definition formatVTTTime :: "int \<Rightarrow> string" where
  "formatVTTTime date =
     (let hours = padStart 2 (CHR ''0'') (toString (getUTCHours date));
          minutes = padStart 2 (CHR ''0'') (toString (getUTCMinutes date));
          seconds = padStart 2 (CHR ''0'') (toString (getUTCSeconds date));
          ms = padStart 3 (CHR ''0'') (toString (getUTCMilliseconds date))
      in hours @ '':'' @ minutes @ '':'' @ seconds @ ''.'' @ ms)"

text \<open>The callback of the \<open>srt\<close> case, applied to a recording and its index.\<close>

definition srt_entry :: "(string \<rightharpoonup> transcription) \<Rightarrow> nat \<Rightarrow> recording \<Rightarrow> string" where
  "srt_entry tmap index r =
     (let text = transcript_text (tmap (rec_id r))
      in if text = [] then []
         else (let startT = startTime r; endT = startT + duration r
               in toString (int index + 1) @ [CHR 0x0A] @ formatSRTTime startT @ '' --> ''
                  @ formatSRTTime endT @ [CHR 0x0A] @ text @ [CHR 0x0A, CHR 0x0A]))"

text \<open>The callback of the \<open>vtt\<close> case.\<close>

definition vtt_entry :: "(string \<rightharpoonup> transcription) \<Rightarrow> recording \<Rightarrow> string" where
  "vtt_entry tmap r =
     (let text = transcript_text (tmap (rec_id r))
      in if text = [] then []
         else (let startT = startTime r; endT = startT + duration r
               in formatVTTTime startT @ '' --> '' @ formatVTTTime endT @ [CHR 0x0A] @ text
                  @ [CHR 0x0A, CHR 0x0A]))"

text \<open>\<open>.map(callback).filter(Boolean).join("")\<close> over the user's recordings.\<close>

definition srt_export :: "recording list \<Rightarrow> transcription list \<Rightarrow> string" where
  "srt_export userRecordings userTranscriptions =
     concat (filter (\<lambda>s. s \<noteq> [])
       (map (\<lambda>(index, r). srt_entry (transcriptionMap userTranscriptions) index r)
            (enumerate 0 userRecordings)))"

definition vtt_export :: "recording list \<Rightarrow> transcription list \<Rightarrow> string" where
  "vtt_export userRecordings userTranscriptions =
     ''WEBVTT'' @ [CHR 0x0A, CHR 0x0A] @
     concat (filter (\<lambda>s. s \<noteq> [])
       (map (vtt_entry (transcriptionMap userTranscriptions)) userRecordings))"

text \<open>
  The layout the specification names: two decimal digits for hours, minutes and seconds,
  three for the milliseconds, each with leading zeros, the separator before the
  milliseconds given.
\<close>

definition two_digits :: "int \<Rightarrow> string" where
  "two_digits n = [digit_char (nat n div 10), digit_char (nat n mod 10)]"

definition three_digits :: "int \<Rightarrow> string" where
  "three_digits n = [digit_char (nat n div 100), digit_char (nat n div 10 mod 10), digit_char (nat n mod 10)]"

definition clock_stamp :: "char \<Rightarrow> int \<Rightarrow> string" where
  "clock_stamp sep t =
     two_digits (t div 3600000 mod 24) @ '':'' @ two_digits (t div 60000 mod 60) @ '':''
     @ two_digits (t div 1000 mod 60) @ [sep] @ three_digits (t mod 1000)"

section \<open>Exceptions, the outside world and its replies\<close>

datatype error =
  Network_error
  | Invalid_json
  | File_info_error string
  | Database_error
  | Unique_violation
  | Storage_error
  | Session_error

text \<open>
  A statement either completes or throws; both leave a state behind, since what was
  written before a throw stays written.
\<close>

datatype 's completion = Completed 's | Thrown error 's

definition try_catch :: "'s completion \<Rightarrow> (error \<Rightarrow> 's \<Rightarrow> 's completion) \<Rightarrow> 's completion" where
  "try_catch body handler = (case body of Completed s \<Rightarrow> Completed s | Thrown err s \<Rightarrow> handler err s)"

text \<open>
  What \<open>fetch\<close> gives: a rejection (no response at all) or a response with its status
  code and its body, \<open>None\<close> when the body cannot be read in the form asked for.
\<close>

datatype 'a fetched = Fetch_rejected | Response nat "'a option"

text \<open>The JSON object of a Bot API answer: \<open>ok\<close> with a result, or not \<open>ok\<close> with a description.\<close>

datatype 'a tg_reply = Reply_ok 'a | Reply_failed string

datatype tg_call = GetUpdates int | GetFile string | SendMessage int string int

datatype console_line =
  Starting_polling
  | Unauthorized_user int
  | Received_audio int
  | Recording_saved string
  | Processing_error error
  | Polling_error error
  | Upload_error error

record blob =
  blob_bytes :: buffer
  blob_type :: string

record world =
  recordings_table :: "recording list"
  storage :: "string \<rightharpoonup> blob"
  calls :: "tg_call list"
  console :: "console_line list"
  timeouts :: "nat list"

record env =
  TELEGRAM_BOT_TOKEN :: "string option"
  TELEGRAM_ALLOWED_USERS :: "string option"
  DEFAULT_STORAGE_TYPE :: "string option"

text \<open>
  \<open>tg\<close>: one POST to the Bot API, answered by \<open>response.json()\<close>. The status code
  of the response is not looked at.
\<close>

definition tg :: "'a tg_reply fetched \<Rightarrow> error + 'a tg_reply" where
  "tg response =
     (case response of
        Fetch_rejected \<Rightarrow> Inl Network_error
      | Response status body \<Rightarrow> (case body of None \<Rightarrow> Inl Invalid_json | Some reply \<Rightarrow> Inr reply))"

text \<open>
  Modelled from the spec: the storage provider (\<open>lib/storage\<close>) is not among the
  sources. Section 4.1 gives \<open>upload(key, bytes, contentType) -> location\<close>: a
  successful upload makes the blob retrievable and returns its location, a failure
  propagates and leaves nothing visible. The location and the failure come from outside.
\<close>

definition uploadFile :: "error + string \<Rightarrow> string \<Rightarrow> buffer \<Rightarrow> string \<Rightarrow> world \<Rightarrow> (error + string) \<times> world" where
  "uploadFile outcome key bytes contentType w =
     (case outcome of
        Inl err \<Rightarrow> (Inl err, w)
      | Inr location \<Rightarrow>
          (Inr location, w\<lparr>storage := (storage w)(key \<mapsto> \<lparr>blob_bytes = bytes, blob_type = contentType\<rparr>)\<rparr>))"

text \<open>
  Modelled from the spec: the declaration of the recordings table (\<open>db/schema\<close>) is not
  among the sources. Section 3 gives its constraint: the pair of owning user and
  source-system file identifier is unique, enforced by the persistence layer, so an
  insert that repeats a pair is refused. Any other failure of the insert comes from
  outside.
\<close>

definition insert_recording :: "error option \<Rightarrow> recording \<Rightarrow> world \<Rightarrow> (error + recording) \<times> world" where
  "insert_recording failure r w =
     (case failure of
        Some err \<Rightarrow> (Inl err, w)
      | None \<Rightarrow>
          if \<exists>r' \<in> set (recordings_table w). userId r' = userId r \<and> plaudFileId r' = plaudFileId r
          then (Inl Unique_violation, w)
          else (Inr r, w\<lparr>recordings_table := recordings_table w @ [r]\<rparr>))"

section \<open>The bot: Telegram updates\<close>

record tg_file =
  file_id :: string
  file_duration :: int
  mime_type :: "string option"
  file_size :: "int option"
  file_name :: "string option"

record tg_user =
  user_id :: int
  username :: "string option"

record tg_message =
  message_id :: int
  from_user :: "tg_user option"
  chat_id :: int
  date :: int
  message_text :: "string option"
  voice :: "tg_file option"
  audio :: "tg_file option"

record tg_update =
  update_id :: int
  message :: "tg_message option"

text \<open>
  What the outside does while one update is handled: the answer of each call the loop
  makes for it, in the order of the calls.
\<close>

record outside =
  users_query :: "error + string list"
  getFile_response :: "string tg_reply fetched"
  file_response :: "buffer fetched"
  provider_failure :: "error option"
  nanoid :: string
  upload_outcome :: "error + string"
  insert_failure :: "error option"
  sendMessage_response :: "unit tg_reply fetched"
  now :: int

definition downloadFile :: "outside \<Rightarrow> string \<Rightarrow> world \<Rightarrow> (error + buffer) \<times> world" where
  "downloadFile out fileId w =
     (let w1 = w\<lparr>calls := calls w @ [GetFile fileId]\<rparr>
      in case tg (getFile_response out) of
           Inl err \<Rightarrow> (Inl err, w1)
         | Inr fileInfo \<Rightarrow>
             (case fileInfo of
                Reply_failed description \<Rightarrow> (Inl (File_info_error description), w1)
              | Reply_ok file_path \<Rightarrow>
                  (case file_response out of
                     Fetch_rejected \<Rightarrow> (Inl Network_error, w1)
                   | Response status body \<Rightarrow>
                       (case body of None \<Rightarrow> (Inl Network_error, w1) | Some bytes \<Rightarrow> (Inr bytes, w1)))))"

definition allowedUsers :: "env \<Rightarrow> string list" where
  "allowedUsers e =
     (case TELEGRAM_ALLOWED_USERS e of None \<Rightarrow> [] | Some s \<Rightarrow> map trim (split_on (CHR '','') s))"

text \<open>The text of the reply; it opens with the check mark U+2705 and a space.\<close>

definition acknowledgment :: string where
  "acknowledgment = [CHR 0xE2, CHR 0x9C, CHR 0x85] @ '' Recording received and saved to OpenPlaud!''"

text \<open>The body of the inner \<open>try\<close>: download, store, insert, acknowledge.\<close>

definition save_audio :: "env \<Rightarrow> outside \<Rightarrow> tg_message \<Rightarrow> tg_file \<Rightarrow> string \<Rightarrow> world \<Rightarrow> world completion" where
  "save_audio e out m a targetUser w =
     (case downloadFile out (file_id a) w of
        (Inl err, w1) \<Rightarrow> Thrown err w1
      | (Inr buffer, w1) \<Rightarrow>
          (case provider_failure out of
             Some err \<Rightarrow> Thrown err w1
           | None \<Rightarrow>
               (let recordingId = nanoid out;
                    timestamp = date m * 1000;
                    filename = or_string (file_name a) (''telegram-'' @ recordingId @ ''.ogg'');
                    storageKey = ''telegram/'' @ targetUser @ ''/'' @ toString timestamp @ ''-'' @ filename
                in case uploadFile (upload_outcome out) storageKey buffer
                          (or_string (mime_type a) ''audio/ogg'') w1 of
                     (Inl err, w2) \<Rightarrow> Thrown err w2
                   | (Inr storagePath', w2) \<Rightarrow>
                       (case insert_recording (insert_failure out)
                               \<lparr>rec_id = recordingId,
                                userId = targetUser,
                                deviceSn = ''TELEGRAM'',
                                plaudFileId = ''tg-'' @ file_id a,
                                filename = filename,
                                duration = or_number (Some (file_duration a)) 0 * 1000,
                                startTime = timestamp,
                                endTime = timestamp,
                                filesize = or_number (file_size a) (int (length buffer)),
                                fileMd5 = [],
                                storageType = or_string (DEFAULT_STORAGE_TYPE e) ''local'',
                                storagePath = storagePath',
                                downloadedAt = now out,
                                plaudVersion = ''1.0.0''\<rparr> w2 of
                          (Inl err, w3) \<Rightarrow> Thrown err w3
                        | (Inr row, w3) \<Rightarrow>
                            (let w4 = w3\<lparr>console := console w3 @ [Recording_saved recordingId]\<rparr>;
                                 w5 = w4\<lparr>calls := calls w4 @ [SendMessage (chat_id m) acknowledgment (message_id m)]\<rparr>
                             in case tg (sendMessage_response out) of
                                  Inl err \<Rightarrow> Thrown err w5
                                | Inr reply \<Rightarrow> Completed w5)))))"

text \<open>\<open>message.voice || message.audio\<close>.\<close>

definition audio_of :: "tg_message \<Rightarrow> tg_file option" where
  "audio_of m = (case voice m of Some v \<Rightarrow> Some v | None \<Rightarrow> audio m)"

text \<open>
  The body of the \<open>for\<close> loop after the assignment to \<open>lastUpdateId\<close>. The query for
  the target user stands outside the inner \<open>try\<close>, so its failure leaves the loop body.
\<close>

definition process_update :: "env \<Rightarrow> outside \<Rightarrow> tg_update \<Rightarrow> world \<Rightarrow> world completion" where
  "process_update e out update w =
     (case message update of
        None \<Rightarrow> Completed w
      | Some m \<Rightarrow>
          (case from_user m of
             None \<Rightarrow> Completed w
           | Some sender \<Rightarrow>
               if length (allowedUsers e) > 0 \<and> toString (user_id sender) \<notin> set (allowedUsers e)
               then Completed (w\<lparr>console := console w @ [Unauthorized_user (user_id sender)]\<rparr>)
               else (case audio_of m of
                       None \<Rightarrow> Completed w
                     | Some a \<Rightarrow>
                         (let w1 = w\<lparr>console := console w @ [Received_audio (user_id sender)]\<rparr>
                          in case users_query out of
                               Inl err \<Rightarrow> Thrown err w1
                             | Inr rows \<Rightarrow>
                                 (case rows of
                                    [] \<Rightarrow> Completed w1
                                  | targetUser # rest \<Rightarrow>
                                      try_catch (save_audio e out m a targetUser w1)
                                        (\<lambda>err w'. Completed (w'\<lparr>console := console w' @ [Processing_error err]\<rparr>)))))))"

text \<open>
  The \<open>for\<close> loop over one answer. The state is the variable \<open>lastUpdateId\<close> and the
  world; the \<open>i\<close>-th update of the answer meets the outside \<open>outs i\<close>.
\<close>

fun process_updates :: "env \<Rightarrow> (nat \<Rightarrow> outside) \<Rightarrow> nat \<Rightarrow> tg_update list \<Rightarrow> int \<times> world \<Rightarrow> (int \<times> world) completion" where
  "process_updates e outs i [] (lastUpdateId, w) = Completed (lastUpdateId, w)"
| "process_updates e outs i (update # updates) (lastUpdateId, w) =
     (let lastUpdateId' = update_id update
      in case process_update e (outs i) update w of
           Completed w' \<Rightarrow> process_updates e outs (Suc i) updates (lastUpdateId', w')
         | Thrown err w' \<Rightarrow> Thrown err (lastUpdateId', w'))"

text \<open>One turn of \<open>while (true)\<close>: the answer to \<open>getUpdates\<close> and the outside of each update.\<close>

record round =
  poll_response :: "tg_update list tg_reply fetched"
  outsides :: "nat \<Rightarrow> outside"

definition poll_body :: "env \<Rightarrow> round \<Rightarrow> int \<times> world \<Rightarrow> (int \<times> world) completion" where
  "poll_body e r s =
     (case s of (lastUpdateId, w) \<Rightarrow>
        (let w1 = w\<lparr>calls := calls w @ [GetUpdates (lastUpdateId + 1)]\<rparr>
         in case tg (poll_response r) of
              Inl err \<Rightarrow> Thrown err (lastUpdateId, w1)
            | Inr result \<Rightarrow>
                (case result of
                   Reply_failed description \<Rightarrow> Completed (lastUpdateId, w1)
                 | Reply_ok updates \<Rightarrow>
                     if length updates > 0
                     then process_updates e (outsides r) 0 updates (lastUpdateId, w1)
                     else Completed (lastUpdateId, w1))))"

definition backoff :: "error \<Rightarrow> int \<times> world \<Rightarrow> (int \<times> world) completion" where
  "backoff err s =
     (case s of (lastUpdateId, w) \<Rightarrow>
        Completed (lastUpdateId, w\<lparr>console := console w @ [Polling_error err], timeouts := timeouts w @ [5000]\<rparr>))"

definition poll_iteration :: "env \<Rightarrow> round \<Rightarrow> int \<times> world \<Rightarrow> (int \<times> world) completion" where
  "poll_iteration e r s = try_catch (poll_body e r s) backoff"

text \<open>
  The loop over the turns given. \<open>Completed\<close> is the loop at the top of its next turn,
  about to call \<open>getUpdates\<close>; \<open>Thrown\<close> is an exception that left the loop.
\<close>

fun poll_loop :: "env \<Rightarrow> round list \<Rightarrow> int \<times> world \<Rightarrow> (int \<times> world) completion" where
  "poll_loop e [] s = Completed s"
| "poll_loop e (r # rs) s =
     (case poll_iteration e r s of
        Completed s' \<Rightarrow> poll_loop e rs s'
      | Thrown err s' \<Rightarrow> Thrown err s')"

datatype polling = Returned world | Polling int world | Rejected error world

definition pollTelegramUpdates :: "env \<Rightarrow> round list \<Rightarrow> world \<Rightarrow> polling" where
  "pollTelegramUpdates e rounds w =
     (if or_string (TELEGRAM_BOT_TOKEN e) [] = [] then Returned w
      else (let lastUpdateId = 0;
                w1 = w\<lparr>console := console w @ [Starting_polling]\<rparr>
            in case poll_loop e rounds (lastUpdateId, w1) of
                 Completed (lastUpdateId', w') \<Rightarrow> Polling lastUpdateId' w'
               | Thrown err (lastUpdateId', w') \<Rightarrow> Rejected err w'))"

section \<open>The poll route\<close>

text \<open>
  The module variable \<open>isPollingStarted\<close>, and beside it the number of calls of
  \<open>pollTelegramUpdates\<close> the route has made.
\<close>

record runtime =
  isPollingStarted :: bool
  loops_started :: nat

definition GET_poll :: "env \<Rightarrow> runtime \<Rightarrow> string \<times> runtime" where
  "GET_poll e rt =
     (if or_string (TELEGRAM_BOT_TOKEN e) [] = [] then (''Telegram bot not configured'', rt)
      else if isPollingStarted rt then (''Polling already active'', rt)
      else (''Telegram polling started'',
            rt\<lparr>isPollingStarted := True, loops_started := Suc (loops_started rt)\<rparr>))"

text \<open>The handler given to \<open>catch\<close>, run when the promise of the loop rejects.\<close>

definition poll_rejected :: "runtime \<Rightarrow> runtime" where
  "poll_rejected rt = rt\<lparr>isPollingStarted := False\<rparr>"

text \<open>A number of GET calls one after the other, with the status each one answers.\<close>

fun GET_poll_calls :: "env \<Rightarrow> nat \<Rightarrow> runtime \<Rightarrow> string list \<times> runtime" where
  "GET_poll_calls e 0 rt = ([], rt)"
| "GET_poll_calls e (Suc n) rt =
     (case GET_poll e rt of (status, rt') \<Rightarrow>
        (case GET_poll_calls e n rt' of (statuses, rt'') \<Rightarrow> (status # statuses, rt'')))"

definition fresh_runtime :: runtime where
  "fresh_runtime = \<lparr>isPollingStarted = False, loops_started = 0\<rparr>"

section \<open>The upload route\<close>

record upload_file =
  file_type :: string
  upload_name :: string
  upload_size :: int
  upload_bytes :: buffer

text \<open>
  A request as the handler reads it: what \<open>getSession\<close> gives (the user of the session,
  if any) and what \<open>formData().get("file")\<close> gives; either read may throw.
\<close>

record upload_request =
  session_user :: "error + string option"
  form_file :: "error + upload_file option"

record upload_outside =
  u_provider_failure :: "error option"
  u_nanoid :: string
  u_now :: int
  u_upload_outcome :: "error + string"
  u_insert_failure :: "error option"

datatype payload = Error_payload string | Success_payload recording

record response =
  status :: nat
  body :: payload

definition validExtensions :: "string list" where
  "validExtensions = [''.mp3'', ''.wav'', ''.m4a'', ''.aac'', ''.ogg'', ''.flac'']"

definition hasValidExtension :: "string \<Rightarrow> bool" where
  "hasValidExtension name = (\<exists>ext \<in> set validExtensions. endsWith (toLowerCase name) ext)"

text \<open>The statements after the validation: store the bytes, insert the row, answer.\<close>

definition store_upload :: "env \<Rightarrow> upload_outside \<Rightarrow> string \<Rightarrow> upload_file \<Rightarrow> world \<Rightarrow> (error + response) \<times> world" where
  "store_upload e out user file w =
     (let buffer = upload_bytes file
      in case u_provider_failure out of
           Some err \<Rightarrow> (Inl err, w)
         | None \<Rightarrow>
             (let recordingId = u_nanoid out;
                  timestamp = u_now out;
                  storageKey = ''manual/'' @ user @ ''/'' @ toString timestamp @ ''-'' @ upload_name file
              in case uploadFile (u_upload_outcome out) storageKey buffer
                        (or_string (Some (file_type file)) ''audio/mpeg'') w of
                   (Inl err, w1) \<Rightarrow> (Inl err, w1)
                 | (Inr storagePath', w1) \<Rightarrow>
                     (let duration' = 0
                      in case insert_recording (u_insert_failure out)
                                \<lparr>rec_id = recordingId,
                                 userId = user,
                                 deviceSn = ''MANUAL'',
                                 plaudFileId = ''manual-'' @ recordingId,
                                 filename = upload_name file,
                                 duration = duration',
                                 startTime = timestamp,
                                 endTime = timestamp,
                                 filesize = upload_size file,
                                 fileMd5 = [],
                                 storageType = or_string (DEFAULT_STORAGE_TYPE e) ''local'',
                                 storagePath = storagePath',
                                 downloadedAt = timestamp,
                                 plaudVersion = ''1.0.0''\<rparr> w1 of
                           (Inl err, w2) \<Rightarrow> (Inl err, w2)
                         | (Inr newRecording, w2) \<Rightarrow>
                             (Inr \<lparr>status = 200, body = Success_payload newRecording\<rparr>, w2))))"

text \<open>The body of the \<open>try\<close> of the handler.\<close>

definition upload_body :: "env \<Rightarrow> upload_outside \<Rightarrow> upload_request \<Rightarrow> world \<Rightarrow> (error + response) \<times> world" where
  "upload_body e out request w =
     (case session_user request of
        Inl err \<Rightarrow> (Inl err, w)
      | Inr user \<Rightarrow>
          (case user of
             None \<Rightarrow> (Inr \<lparr>status = 401, body = Error_payload ''Unauthorized''\<rparr>, w)
           | Some u \<Rightarrow>
               (case form_file request of
                  Inl err \<Rightarrow> (Inl err, w)
                | Inr file' \<Rightarrow>
                    (case file' of
                       None \<Rightarrow> (Inr \<lparr>status = 400, body = Error_payload ''No file uploaded''\<rparr>, w)
                     | Some file \<Rightarrow>
                         if \<not> startsWith (file_type file) ''audio/''
                         then (if \<not> hasValidExtension (upload_name file)
                               then (Inr \<lparr>status = 400, body = Error_payload ''Only audio files are allowed''\<rparr>, w)
                               else store_upload e out u file w)
                         else store_upload e out u file w))))"

definition POST_upload :: "env \<Rightarrow> upload_outside \<Rightarrow> upload_request \<Rightarrow> world \<Rightarrow> response \<times> world" where
  "POST_upload e out request w =
     (case upload_body e out request w of
        (Inr answer, w') \<Rightarrow> (answer, w')
      | (Inl err, w') \<Rightarrow>
          (\<lparr>status = 500, body = Error_payload ''Failed to upload recording''\<rparr>,
           w'\<lparr>console := console w' @ [Upload_error err]\<rparr>))"

section \<open>Observations on a run\<close>

definition state_of :: "'s completion \<Rightarrow> 's" where
  "state_of c = (case c of Completed s \<Rightarrow> s | Thrown err s \<Rightarrow> s)"

text \<open>The update identifiers the loop has been given in the answers of a run.\<close>

definition updates_of :: "round \<Rightarrow> tg_update list" where
  "updates_of r =
     (case tg (poll_response r) of
        Inl err \<Rightarrow> []
      | Inr result \<Rightarrow> (case result of Reply_failed description \<Rightarrow> [] | Reply_ok updates \<Rightarrow> updates))"

definition seen_ids :: "round list \<Rightarrow> int list" where
  "seen_ids rounds = concat (map (\<lambda>r. map update_id (updates_of r)) rounds)"

text \<open>The acknowledgments among the calls made.\<close>

fun is_sendMessage :: "tg_call \<Rightarrow> bool" where
  "is_sendMessage (SendMessage chat msg reply_to) = True"
| "is_sendMessage (GetUpdates offset) = False"
| "is_sendMessage (GetFile fileId) = False"

definition sent_messages :: "world \<Rightarrow> tg_call list" where
  "sent_messages w = filter is_sendMessage (calls w)"

text \<open>The rows of the table held for one user and one source-system file identifier.\<close>

definition rows_for :: "string \<Rightarrow> string \<Rightarrow> world \<Rightarrow> recording list" where
  "rows_for user fileId w =
     filter (\<lambda>r. userId r = user \<and> plaudFileId r = fileId) (recordings_table w)"

section \<open>Sample inputs\<close>

definition sample_env :: env where
  "sample_env =
     \<lparr>TELEGRAM_BOT_TOKEN = Some ''123:abc'', TELEGRAM_ALLOWED_USERS = Some ''42, 77'',
      DEFAULT_STORAGE_TYPE = None\<rparr>"

definition empty_world :: world where
  "empty_world = \<lparr>recordings_table = [], storage = Map.empty, calls = [], console = [], timeouts = []\<rparr>"

text \<open>An outside where every call succeeds; the argument is what \<open>nanoid\<close> returns.\<close>

definition calm :: "string \<Rightarrow> outside" where
  "calm rid =
     \<lparr>users_query = Inr [''user-1''],
      getFile_response = Response 200 (Some (Reply_ok ''voice/file_7.oga'')),
      file_response = Response 200 (Some [79, 103, 103, 83]),
      provider_failure = None,
      nanoid = rid,
      upload_outcome = Inr ''/data/audio'',
      insert_failure = None,
      sendMessage_response = Response 200 (Some (Reply_ok ())),
      now = 1700000100000\<rparr>"

definition always_calm :: "nat \<Rightarrow> outside" where
  "always_calm i = calm ''rec1''"

text \<open>An outside where the database is down when the target user is looked up.\<close>

definition database_down :: "nat \<Rightarrow> outside" where
  "database_down i = (calm ''rec1'')\<lparr>users_query := Inl Database_error\<rparr>"

text \<open>A voice message of 12 seconds, sent at 1700000000 by the given sender.\<close>

definition voice_message :: "int \<Rightarrow> tg_message" where
  "voice_message sender =
     \<lparr>message_id = 5, from_user = Some \<lparr>user_id = sender, username = None\<rparr>, chat_id = 900,
      date = 1700000000, message_text = None,
      voice = Some \<lparr>file_id = ''AwACAg'', file_duration = 12, mime_type = None,
                     file_size = None, file_name = None\<rparr>,
      audio = None\<rparr>"

definition voice_update :: "int \<Rightarrow> int \<Rightarrow> tg_update" where
  "voice_update n sender = \<lparr>update_id = n, message = Some (voice_message sender)\<rparr>"

definition bare_update :: "int \<Rightarrow> tg_update" where
  "bare_update n = \<lparr>update_id = n, message = None\<rparr>"

text \<open>The world after the first delivery of the voice message, and after its second.\<close>

definition world_after_first :: world where
  "world_after_first = state_of (process_update sample_env (calm ''rec1'') (voice_update 1 42) empty_world)"

definition world_after_second :: world where
  "world_after_second = state_of (process_update sample_env (calm ''rec2'') (voice_update 2 42) world_after_first)"

text \<open>One answer with two updates while the database is down.\<close>

definition round_database_down :: round where
  "round_database_down =
     \<lparr>poll_response = Response 200 (Some (Reply_ok [voice_update 1 42, voice_update 2 42])),
      outsides = database_down\<rparr>"

text \<open>The answer of the Bot API to a revoked token: status 401 with a JSON body.\<close>

definition round_unauthorized :: round where
  "round_unauthorized =
     \<lparr>poll_response = Response 401 (Some (Reply_failed ''Unauthorized'')), outsides = always_calm\<rparr>"

definition round_bad_gateway :: round where
  "round_bad_gateway = \<lparr>poll_response = Response 502 None, outsides = always_calm\<rparr>"

definition round_two_updates :: round where
  "round_two_updates =
     \<lparr>poll_response = Response 200 (Some (Reply_ok [bare_update 3, voice_update 4 99])),
      outsides = always_calm\<rparr>"

text \<open>
  One answer in which an update without a message stands behind a voice message whose
  target user cannot be looked up, and an answer that brings nothing.
\<close>

definition round_bare_behind_failure :: round where
  "round_bare_behind_failure =
     \<lparr>poll_response = Response 200 (Some (Reply_ok [voice_update 1 42, bare_update 2])),
      outsides = database_down\<rparr>"

definition round_nothing_new :: round where
  "round_nothing_new = \<lparr>poll_response = Response 200 (Some (Reply_ok [])), outsides = always_calm\<rparr>"

fun cursor_of :: "polling \<Rightarrow> int option" where
  "cursor_of (Polling lastUpdateId w) = Some lastUpdateId"
| "cursor_of (Returned w) = None"
| "cursor_of (Rejected err w) = None"

definition notes_txt :: upload_file where
  "notes_txt = \<lparr>file_type = ''text/plain'', upload_name = ''notes.txt'', upload_size = 3, upload_bytes = [104, 105, 10]\<rparr>"

definition memo_mp3 :: upload_file where
  "memo_mp3 = \<lparr>file_type = ''audio/mpeg'', upload_name = ''memo.mp3'', upload_size = 4, upload_bytes = [73, 68, 51, 4]\<rparr>"

definition calm_upload :: "string \<Rightarrow> upload_outside" where
  "calm_upload rid =
     \<lparr>u_provider_failure = None, u_nanoid = rid, u_now = 1700000200000,
      u_upload_outcome = Inr ''/data/manual'', u_insert_failure = None\<rparr>"

definition request_of :: "string option \<Rightarrow> upload_file \<Rightarrow> upload_request" where
  "request_of user file = \<lparr>session_user = Inr user, form_file = Inr (Some file)\<rparr>"

text \<open>A recording that starts at 01:02:03.004 UTC and lasts 12 seconds, with its transcript.\<close>

definition sample_recording :: recording where
  "sample_recording =
     \<lparr>rec_id = ''rec1'', userId = ''user-1'', deviceSn = ''TELEGRAM'', plaudFileId = ''tg-AwACAg'',
      filename = ''telegram-rec1.ogg'', duration = 12000, startTime = 3723004, endTime = 3723004,
      filesize = 4, fileMd5 = [], storageType = ''local'', storagePath = ''/data/audio'',
      downloadedAt = 3800000, plaudVersion = ''1.0.0''\<rparr>"

definition sample_transcription :: transcription where
  "sample_transcription = \<lparr>t_recordingId = ''rec1'', t_userId = ''user-1'', t_text = Some ''hello''\<rparr>"

definition second_delivery :: "nat \<Rightarrow> outside" where
  "second_delivery i = calm ''rec2''"

section \<open>Auxiliary facts\<close>

lemma state_of_simps [simp]:
  "state_of (Completed s) = s" "state_of (Thrown err s) = s"
  by (simp_all add: state_of_def)

lemma or_number_Some_0: "or_number (Some d) 0 = d"
  by (simp add: or_number_def)

lemma digit_char_0: "digit_char 0 = CHR ''0''"
  by code_simp

lemma show_nat_lt10: "n < 10 \<Longrightarrow> show_nat n = [digit_char n]"
  by (simp add: show_nat.simps)

lemma show_nat_lt100:
  "10 \<le> n \<Longrightarrow> n < 100 \<Longrightarrow> show_nat n = [digit_char (n div 10), digit_char (n mod 10)]"
  by (subst show_nat.simps) (simp add: show_nat_lt10)

lemma show_nat_lt1000:
  "100 \<le> n \<Longrightarrow> n < 1000 \<Longrightarrow>
   show_nat n = [digit_char (n div 100), digit_char (n div 10 mod 10), digit_char (n mod 10)]"
  by (subst show_nat.simps) (simp add: show_nat_lt100 div_mult2_eq[symmetric])

lemma padStart_two_digits:
  "0 \<le> n \<Longrightarrow> n < 100 \<Longrightarrow> padStart 2 (CHR ''0'') (toString n) = two_digits n"
  by (cases "nat n < 10")
     (auto simp: padStart_def toString_def two_digits_def show_nat_lt10 show_nat_lt100
                 digit_char_0[symmetric])

lemma padStart_three_digits:
  assumes "0 \<le> n" "n < 1000"
  shows "padStart 3 (CHR ''0'') (toString n) = three_digits n"
proof -
  consider "nat n < 10" | "10 \<le> nat n \<and> nat n < 100" | "100 \<le> nat n \<and> nat n < 1000"
    using assms by linarith
  then show ?thesis
    using assms
    by cases
       (auto simp: padStart_def toString_def three_digits_def show_nat_lt10 show_nat_lt100
                   show_nat_lt1000 digit_char_0[symmetric] numeral_3_eq_3)
qed

lemma formatSRTTime_clock_stamp: "formatSRTTime t = clock_stamp (CHR '','') t"
  by (simp add: formatSRTTime_def clock_stamp_def getUTCHours_def getUTCMinutes_def
                getUTCSeconds_def getUTCMilliseconds_def padStart_two_digits padStart_three_digits)

lemma formatVTTTime_clock_stamp: "formatVTTTime t = clock_stamp (CHR ''.'') t"
  by (simp add: formatVTTTime_def clock_stamp_def getUTCHours_def getUTCMinutes_def
                getUTCSeconds_def getUTCMilliseconds_def padStart_two_digits padStart_three_digits)

text \<open>A piece that is not empty survives \<open>filter(Boolean)\<close> and stands whole in the join.\<close>

lemma concat_filter_nth:
  assumes "i < length xs" "f (xs ! i) \<noteq> []"
  shows "\<exists>pre post. concat (filter (\<lambda>s. s \<noteq> []) (map f xs)) = pre @ f (xs ! i) @ post"
proof -
  have "xs = take i xs @ xs ! i # drop (Suc i) xs"
    using assms(1) by (rule id_take_nth_drop)
  then have "map f xs = map f (take i xs) @ f (xs ! i) # map f (drop (Suc i) xs)"
    by (metis list.simps(9) map_append)
  then have "concat (filter (\<lambda>s. s \<noteq> []) (map f xs)) =
      concat (filter (\<lambda>s. s \<noteq> []) (map f (take i xs))) @ f (xs ! i)
      @ concat (filter (\<lambda>s. s \<noteq> []) (map f (drop (Suc i) xs)))"
    using assms(2) by simp
  then show ?thesis by blast
qed

lemma downloadFile_world:
  "downloadFile out fid w = (res, w1) \<Longrightarrow> w1 = w\<lparr>calls := calls w @ [GetFile fid]\<rparr>"
  by (auto simp: downloadFile_def Let_def
           split: sum.splits tg_reply.splits fetched.splits option.splits)

lemma insert_recording_cases:
  "insert_recording failure r w = (res, w') \<Longrightarrow>
     (w' = w \<and> (\<exists>err. res = Inl err)) \<or>
     (res = Inr r \<and> failure = None \<and> w' = w\<lparr>recordings_table := recordings_table w @ [r]\<rparr> \<and>
      \<not> (\<exists>r' \<in> set (recordings_table w). userId r' = userId r \<and> plaudFileId r' = plaudFileId r))"
  by (auto simp: insert_recording_def split: option.splits if_splits)

lemma uploadFile_frame:
  "uploadFile outcome key bytes ct w = (res, w') \<Longrightarrow>
   recordings_table w' = recordings_table w \<and> calls w' = calls w \<and> console w' = console w
   \<and> timeouts w' = timeouts w"
  by (auto simp: uploadFile_def split: sum.splits)

text \<open>The inner \<open>try\<close> leaves the table as it was or appends the one row it built.\<close>

lemma save_audio_table:
  "recordings_table (state_of (save_audio e out m a uid w)) = recordings_table w \<or>
   (\<exists>r. recordings_table (state_of (save_audio e out m a uid w)) = recordings_table w @ [r] \<and>
        duration r = file_duration a * 1000 \<and> startTime r = date m * 1000 \<and>
        endTime r = date m * 1000 \<and> userId r = uid \<and> plaudFileId r = ''tg-'' @ file_id a \<and>
        \<not> (\<exists>r' \<in> set (recordings_table w). userId r' = uid \<and> plaudFileId r' = ''tg-'' @ file_id a))"
  unfolding save_audio_def Let_def
  by (auto split: prod.splits sum.splits option.splits
           dest!: downloadFile_world uploadFile_frame insert_recording_cases
           simp: or_number_Some_0)

lemma try_catch_completed:
  "(\<And>err s. \<exists>s'. handler err s = Completed s') \<Longrightarrow> \<exists>s'. try_catch c handler = Completed s'"
  by (cases c) (auto simp: try_catch_def)

lemma process_update_completes:
  assumes "users_query out = Inr rows"
  shows "\<exists>w'. process_update e out u w = Completed w'"
  using assms
  by (auto simp: process_update_def Let_def try_catch_def
           split: option.splits list.splits completion.splits)

lemma process_updates_last:
  assumes "\<forall>j < length us. \<exists>rows. users_query (outs (i + j)) = Inr rows"
  shows "\<exists>w'. process_updates e outs i us (c, w) = Completed (last (c # map update_id us), w')"
  using assms
proof (induction us arbitrary: i c w)
  case Nil
  then show ?case by simp
next
  case (Cons u us)
  from Cons.prems have "\<exists>rows. users_query (outs i) = Inr rows" by force
  then obtain w1 where w1: "process_update e (outs i) u w = Completed w1"
    using process_update_completes by blast
  have "\<forall>j < length us. \<exists>rows. users_query (outs (Suc i + j)) = Inr rows"
    using Cons.prems by force
  from Cons.IH[OF this, of "update_id u" w1] w1 show ?case by auto
qed

lemma poll_iteration_completes: "\<exists>s'. poll_iteration e r s = Completed s'"
  unfolding poll_iteration_def
  by (rule try_catch_completed) (auto simp: backoff_def split: prod.splits)

lemma poll_loop_completes: "\<exists>s'. poll_loop e rounds s = Completed s'"
proof (induction rounds arbitrary: s)
  case Nil
  show ?case by simp
next
  case (Cons r rs)
  obtain s1 where "poll_iteration e r s = Completed s1"
    using poll_iteration_completes by blast
  then show ?case using Cons.IH[of s1] by simp
qed

lemma poll_iteration_last:
  assumes "\<forall>j < length (updates_of r). \<exists>rows. users_query (outsides r j) = Inr rows"
  shows "\<exists>w'. poll_iteration e r (c, w) = Completed (last (c # map update_id (updates_of r)), w')"
proof (cases "tg (poll_response r)")
  case (Inl err)
  then show ?thesis
    by (simp add: poll_iteration_def poll_body_def try_catch_def backoff_def updates_of_def Let_def)
next
  case (Inr result)
  show ?thesis
  proof (cases result)
    case (Reply_failed d)
    with Inr show ?thesis
      by (simp add: poll_iteration_def poll_body_def try_catch_def updates_of_def Let_def)
  next
    case (Reply_ok updates)
    with Inr have u: "updates_of r = updates"
      by (simp add: updates_of_def)
    from assms u
    have "\<forall>j < length updates. \<exists>rows. users_query (outsides r (0 + j)) = Inr rows"
      by simp
    from process_updates_last[OF this, of e c "w\<lparr>calls := calls w @ [GetUpdates (c + 1)]\<rparr>"]
    obtain w' where
      "process_updates e (outsides r) 0 updates (c, w\<lparr>calls := calls w @ [GetUpdates (c + 1)]\<rparr>)
       = Completed (last (c # map update_id updates), w')"
      by blast
    with Inr Reply_ok u show ?thesis
      by (cases updates) (auto simp add: poll_iteration_def poll_body_def try_catch_def Let_def)
  qed
qed

lemma poll_loop_last:
  assumes "\<forall>r \<in> set rounds. \<forall>j < length (updates_of r). \<exists>rows. users_query (outsides r j) = Inr rows"
  shows "\<exists>w'. poll_loop e rounds (c, w) = Completed (last (c # seen_ids rounds), w')"
  using assms
proof (induction rounds arbitrary: c w)
  case Nil
  show ?case by (simp add: seen_ids_def)
next
  case (Cons r rs)
  from Cons.prems obtain w1 where
    w1: "poll_iteration e r (c, w) = Completed (last (c # map update_id (updates_of r)), w1)"
    using poll_iteration_last by (metis list.set_intros(1))
  from Cons.prems
  have "\<forall>r \<in> set rs. \<forall>j < length (updates_of r). \<exists>rows. users_query (outsides r j) = Inr rows"
    by simp
  from Cons.IH[OF this, of "last (c # map update_id (updates_of r))" w1] obtain w' where
    "poll_loop e rs (last (c # map update_id (updates_of r)), w1)
     = Completed (last (last (c # map update_id (updates_of r)) # seen_ids rs), w')"
    by blast
  moreover have "last (last (c # map update_id (updates_of r)) # seen_ids rs)
                 = last (c # seen_ids (r # rs))"
    by (simp add: seen_ids_def)
  ultimately show ?case using w1 by simp
qed

lemma sorted_last_Max: "sorted (x # xs) \<Longrightarrow> last (x # xs) = Max (set (x # xs))"
proof (induction xs arbitrary: x)
  case Nil
  show ?case by simp
next
  case (Cons y ys)
  then have "last (y # ys) = Max (set (y # ys))" by simp
  moreover have "x \<le> Max (set (y # ys))"
    using Cons.prems by (simp add: Max_ge_iff)
  ultimately show ?case by (simp add: max_def)
qed

lemma try_catch_table:
  "recordings_table (state_of (try_catch c (\<lambda>err w'. Completed (w'\<lparr>console := console w' @ [line err]\<rparr>))))
   = recordings_table (state_of c)"
  by (cases c) (simp_all add: try_catch_def)

text \<open>Handling one update leaves the table as it was or appends one row for its audio.\<close>

lemma process_update_table:
  "recordings_table (state_of (process_update e out u w)) = recordings_table w \<or>
   (\<exists>m a uid r. message u = Some m \<and> audio_of m = Some a \<and>
        recordings_table (state_of (process_update e out u w)) = recordings_table w @ [r] \<and>
        duration r = file_duration a * 1000 \<and> startTime r = date m * 1000 \<and>
        endTime r = date m * 1000 \<and> userId r = uid \<and> plaudFileId r = ''tg-'' @ file_id a \<and>
        \<not> (\<exists>r' \<in> set (recordings_table w). userId r' = uid \<and> plaudFileId r' = ''tg-'' @ file_id a))"
proof (cases "message u")
  case None
  then show ?thesis by (simp add: process_update_def)
next
  case (Some m)
  show ?thesis
  proof (cases "audio_of m")
    case None
    with Some show ?thesis
      by (auto simp: process_update_def split: option.splits)
  next
    case a: (Some a)
    show ?thesis
    proof (cases "\<exists>sender uid rest. from_user m = Some sender \<and> users_query out = Inr (uid # rest) \<and>
        \<not> (length (allowedUsers e) > 0 \<and> toString (user_id sender) \<notin> set (allowedUsers e))")
      case False
      with Some a show ?thesis
        by (auto simp: process_update_def Let_def split: option.splits sum.splits list.splits)
    next
      case True
      then obtain sender uid rest where s: "from_user m = Some sender"
        and q: "users_query out = Inr (uid # rest)"
        and ok: "\<not> (length (allowedUsers e) > 0 \<and> toString (user_id sender) \<notin> set (allowedUsers e))"
        by blast
      let ?w1 = "w\<lparr>console := console w @ [Received_audio (user_id sender)]\<rparr>"
      have eq: "recordings_table (state_of (process_update e out u w))
          = recordings_table (state_of (save_audio e out m a uid ?w1))"
        using Some a s q ok by (auto simp add: process_update_def Let_def try_catch_table)
      from save_audio_table [of e out m a uid ?w1] show ?thesis
        unfolding eq using Some a by auto
    qed
  qed
qed

text \<open>When nothing before the insert fails and the pair is new, the row is appended.\<close>

lemma save_audio_appends:
  assumes "\<exists>st path st' bytes. getFile_response out = Response st (Some (Reply_ok path))
             \<and> file_response out = Response st' (Some bytes)"
    and "provider_failure out = None"
    and "\<exists>location. upload_outcome out = Inr location"
    and "insert_failure out = None"
    and "\<not> (\<exists>r' \<in> set (recordings_table w). userId r' = uid \<and> plaudFileId r' = ''tg-'' @ file_id a)"
  shows "\<exists>r. recordings_table (state_of (save_audio e out m a uid w)) = recordings_table w @ [r] \<and>
           duration r = file_duration a * 1000 \<and> startTime r = date m * 1000 \<and>
           endTime r = date m * 1000"
  using assms
  by (auto simp: save_audio_def downloadFile_def tg_def uploadFile_def insert_recording_def Let_def
                 or_number_Some_0
           split: sum.splits fetched.splits option.splits)

text \<open>With a bot token the function enters its loop and stays in it.\<close>

lemma pollTelegramUpdates_polls:
  assumes "or_string (TELEGRAM_BOT_TOKEN e) [] \<noteq> []"
  shows "\<exists>c w'. pollTelegramUpdates e rounds w = Polling c w'"
proof -
  obtain s' where "poll_loop e rounds (0, w\<lparr>console := console w @ [Starting_polling]\<rparr>) = Completed s'"
    using poll_loop_completes by blast
  then show ?thesis
    using assms by (cases s') (simp add: pollTelegramUpdates_def Let_def)
qed

text \<open>The route once polling has started, and the route without a bot token.\<close>

lemma GET_poll_calls_started:
  assumes "or_string (TELEGRAM_BOT_TOKEN e) [] \<noteq> []" and "isPollingStarted rt"
  shows "GET_poll_calls e n rt = (replicate n ''Polling already active'', rt)"
  using assms by (induction n) (simp_all add: GET_poll_def)

lemma GET_poll_calls_not_configured:
  assumes "or_string (TELEGRAM_BOT_TOKEN e) [] = []"
  shows "GET_poll_calls e n rt = (replicate n ''Telegram bot not configured'', rt)"
  using assms by (induction n) (simp_all add: GET_poll_def)

lemma GET_poll_calls_fresh:
  assumes "or_string (TELEGRAM_BOT_TOKEN e) [] \<noteq> []"
  shows "GET_poll_calls e (Suc n) fresh_runtime =
         (''Telegram polling started'' # replicate n ''Polling already active'',
          \<lparr>isPollingStarted = True, loops_started = 1\<rparr>)"
proof -
  have first: "GET_poll e fresh_runtime =
      (''Telegram polling started'', \<lparr>isPollingStarted = True, loops_started = 1\<rparr>)"
    using assms by (simp add: GET_poll_def fresh_runtime_def)
  have "GET_poll_calls e n \<lparr>isPollingStarted = True, loops_started = 1\<rparr> =
      (replicate n ''Polling already active'', \<lparr>isPollingStarted = True, loops_started = 1\<rparr>)"
    using assms by (intro GET_poll_calls_started) simp_all
  with first show ?thesis by simp
qed

text \<open>
  The inner \<open>try\<close> when the table already holds a row for the user and the file: it throws,
  the table stays as it is and no acknowledgment is sent; when the insert is reached, the
  error is the uniqueness violation.
\<close>

lemma save_audio_duplicate:
  assumes "\<exists>r' \<in> set (recordings_table w). userId r' = uid \<and> plaudFileId r' = ''tg-'' @ file_id a"
  shows "\<exists>err w'. save_audio e out m a uid w = Thrown err w' \<and>
           recordings_table w' = recordings_table w \<and>
           filter is_sendMessage (calls w') = filter is_sendMessage (calls w) \<and>
           console w' = console w \<and> timeouts w' = timeouts w \<and>
           ((\<exists>st path st' bytes. getFile_response out = Response st (Some (Reply_ok path))
                \<and> file_response out = Response st' (Some bytes))
            \<and> provider_failure out = None \<and> (\<exists>location. upload_outcome out = Inr location)
            \<and> insert_failure out = None
            \<longrightarrow> err = Unique_violation)"
  using assms
  by (auto simp: save_audio_def downloadFile_def tg_def uploadFile_def insert_recording_def Let_def
           split: sum.splits fetched.splits option.splits tg_reply.splits)

text \<open>At most one row for a user and a file stays at most one row when an update is handled.\<close>

lemma process_update_rows_for:
  assumes "length (rows_for user fid w) \<le> 1"
  shows "length (rows_for user fid (state_of (process_update e out u w))) \<le> 1"
proof -
  from process_update_table [of e out u w]
  consider "recordings_table (state_of (process_update e out u w)) = recordings_table w"
    | r where "recordings_table (state_of (process_update e out u w)) = recordings_table w @ [r]"
        "\<not> (\<exists>r' \<in> set (recordings_table w). userId r' = userId r \<and> plaudFileId r' = plaudFileId r)"
    by auto
  then show ?thesis
  proof cases
    case 1
    with assms show ?thesis by (simp add: rows_for_def)
  next
    case 2
    show ?thesis
    proof (cases "userId r = user \<and> plaudFileId r = fid")
      case True
      with 2(2) have "rows_for user fid w = []"
        by (auto simp: rows_for_def filter_empty_conv)
      with 2(1) True show ?thesis
        by (simp add: rows_for_def)
    next
      case False
      with 2(1) assms show ?thesis
        by (auto simp: rows_for_def)
    qed
  qed
qed

text \<open>What an answer with status 200 of the upload route says about the request and the world.\<close>

lemma POST_upload_200:
  assumes "POST_upload e out req w = (answer, w')" and "status answer = 200"
  shows "\<exists>user f r. session_user req = Inr (Some user) \<and> form_file req = Inr (Some f) \<and>
           recordings_table w' = recordings_table w @ [r] \<and> body answer = Success_payload r \<and>
           userId r = user \<and> rec_id r = u_nanoid out \<and> plaudFileId r = ''manual-'' @ u_nanoid out \<and>
           deviceSn r = ''MANUAL'' \<and> filename r = upload_name f \<and>
           duration r = 0 \<and> startTime r = u_now out \<and> endTime r = u_now out \<and>
           \<not> (\<exists>r' \<in> set (recordings_table w). userId r' = user \<and> plaudFileId r' = ''manual-'' @ u_nanoid out)"
  using assms
  by (auto simp: POST_upload_def upload_body_def store_upload_def uploadFile_def insert_recording_def
                 Let_def
           split: sum.splits option.splits if_splits prod.splits)

text \<open>The sample worlds, computed.\<close>

lemma sample_allowed: "allowedUsers sample_env = [''42'', ''77'']"
  by code_simp

lemma sample_storage_type: "DEFAULT_STORAGE_TYPE sample_env = None"
  by (simp add: sample_env_def)

lemma digit_chars:
  "digit_char 0 = CHR ''0''" "digit_char 1 = CHR ''1''" "digit_char 2 = CHR ''2''"
  "digit_char 3 = CHR ''3''" "digit_char 4 = CHR ''4''" "digit_char 5 = CHR ''5''"
  "digit_char 6 = CHR ''6''" "digit_char 7 = CHR ''7''" "digit_char 8 = CHR ''8''"
  "digit_char 9 = CHR ''9''" "digit_char (Suc 0) = CHR ''1''"
  by code_simp+

lemma sample_shown: "toString 42 = ''42''" "toString 1700000000000 = ''1700000000000''"
  by (simp_all add: toString_def show_nat.simps digit_chars)

lemma world_after_first_eq:
  "world_after_first =
     \<lparr>recordings_table =
        [\<lparr>rec_id = ''rec1'', userId = ''user-1'', deviceSn = ''TELEGRAM'', plaudFileId = ''tg-AwACAg'',
          filename = ''telegram-rec1.ogg'', duration = 12000, startTime = 1700000000000,
          endTime = 1700000000000, filesize = 4, fileMd5 = [], storageType = ''local'',
          storagePath = ''/data/audio'', downloadedAt = 1700000100000, plaudVersion = ''1.0.0''\<rparr>],
      storage = [''telegram/user-1/1700000000000-telegram-rec1.ogg''
                   \<mapsto> \<lparr>blob_bytes = [79, 103, 103, 83], blob_type = ''audio/ogg''\<rparr>],
      calls = [GetFile ''AwACAg'', SendMessage 900 acknowledgment 5],
      console = [Received_audio 42, Recording_saved ''rec1''],
      timeouts = []\<rparr>"
  by (simp add: world_after_first_def process_update_def save_audio_def downloadFile_def tg_def
                uploadFile_def insert_recording_def try_catch_def audio_of_def or_string_def
                or_number_def sample_allowed sample_shown sample_storage_type calm_def voice_update_def
                voice_message_def empty_world_def Let_def)

lemma world_after_second_eq:
  "world_after_second =
     world_after_first
       \<lparr>storage := (storage world_after_first)
           (''telegram/user-1/1700000000000-telegram-rec2.ogg''
              \<mapsto> \<lparr>blob_bytes = [79, 103, 103, 83], blob_type = ''audio/ogg''\<rparr>),
        calls := calls world_after_first @ [GetFile ''AwACAg''],
        console := console world_after_first @ [Received_audio 42, Processing_error Unique_violation]\<rparr>"
  unfolding world_after_second_def world_after_first_eq
  by (simp add: process_update_def save_audio_def downloadFile_def tg_def
                uploadFile_def insert_recording_def try_catch_def audio_of_def or_string_def
                or_number_def sample_allowed sample_shown sample_storage_type calm_def voice_update_def
                voice_message_def Let_def)

text \<open>The white space outside ASCII is trimmed as well.\<close>

lemma trim_no_break_space:
  "trim ([CHR 0xC2, CHR 0xA0] @ ''77'' @ [CHR 0xE2, CHR 0x80, CHR 0xA8, CHR 0x20]) = ''77''"
  by code_simp

text \<open>The \<open>for\<close> loop over a list in two pieces.\<close>

lemma process_updates_append:
  "process_updates e outs i (xs @ ys) s =
     (case process_updates e outs i xs s of
        Completed s' \<Rightarrow> process_updates e outs (i + length xs) ys s'
      | Thrown err s' \<Rightarrow> Thrown err s')"
proof (induction xs arbitrary: i s)
  case Nil
  show ?case by (cases s) simp
next
  case (Cons x xs)
  show ?case
  proof (cases s)
    case (Pair c w)
    show ?thesis
      unfolding Pair
      by (cases "process_update e (outs i) x w")
         (simp_all add: Cons.IH Let_def split: completion.splits)
  qed
qed

text \<open>\<open>lastUpdateId\<close> is always the value it had or the identifier of an update given.\<close>

lemma process_updates_cursor_in:
  "fst (state_of (process_updates e outs i us (c, w))) \<in> set (c # map update_id us)"
proof (induction us arbitrary: i c w)
  case Nil
  show ?case by simp
next
  case (Cons u us)
  show ?case
  proof (cases "process_update e (outs i) u w")
    case (Completed w')
    with Cons.IH [of "Suc i" "update_id u" w'] show ?thesis
      by (auto simp: Let_def)
  next
    case (Thrown err w')
    then show ?thesis by (simp add: Let_def)
  qed
qed

lemma try_catch_backoff_cursor:
  "fst (state_of (try_catch b backoff)) = fst (state_of b)"
  by (cases b) (auto simp: try_catch_def backoff_def split: prod.splits)

lemma poll_iteration_cursor_in:
  "fst (state_of (poll_iteration e r (c, w))) \<in> set (c # map update_id (updates_of r))"
proof (cases "tg (poll_response r)")
  case (Inl err)
  then show ?thesis
    by (simp add: poll_iteration_def try_catch_backoff_cursor poll_body_def Let_def)
next
  case (Inr result)
  show ?thesis
  proof (cases result)
    case (Reply_failed d)
    with Inr show ?thesis
      by (simp add: poll_iteration_def try_catch_backoff_cursor poll_body_def Let_def)
  next
    case (Reply_ok updates)
    with Inr have "updates_of r = updates"
      by (simp add: updates_of_def)
    with Inr Reply_ok
      process_updates_cursor_in [of e "outsides r" 0 updates c "w\<lparr>calls := calls w @ [GetUpdates (c + 1)]\<rparr>"]
    show ?thesis
      by (auto simp: poll_iteration_def try_catch_backoff_cursor poll_body_def Let_def)
  qed
qed

lemma poll_loop_cursor_in:
  "fst (state_of (poll_loop e rs (c, w))) \<in> set (c # seen_ids rs)"
proof (induction rs arbitrary: c w)
  case Nil
  show ?case by simp
next
  case (Cons r rs)
  obtain c1 w1 where step: "poll_iteration e r (c, w) = Completed (c1, w1)"
    using poll_iteration_completes [of e r "(c, w)"] by (metis surj_pair)
  with poll_iteration_cursor_in [of e r c w]
  have "c1 \<in> set (c # map update_id (updates_of r))"
    by simp
  moreover from Cons.IH [of c1 w1]
  have "fst (state_of (poll_loop e rs (c1, w1))) \<in> set (c1 # seen_ids rs)" .
  ultimately show ?case
    using step by (auto simp: seen_ids_def)
qed

text \<open>Calls are only ever added, and a turn opens with the request from \<open>lastUpdateId + 1\<close>.\<close>

lemma save_audio_calls:
  "\<exists>new. calls (state_of (save_audio e out m a uid w)) = calls w @ new"
  unfolding save_audio_def Let_def
  by (auto split: prod.splits sum.splits option.splits
           dest!: downloadFile_world uploadFile_frame insert_recording_cases)

lemma process_update_calls:
  "\<exists>new. calls (state_of (process_update e out u w)) = calls w @ new"
proof -
  have handled: "\<exists>new. calls (state_of (try_catch
        (save_audio e out m a uid (w\<lparr>console := console w @ [line]\<rparr>))
        (\<lambda>err w'. Completed (w'\<lparr>console := console w' @ [Processing_error err]\<rparr>)))) = calls w @ new"
    for m a uid line
    using save_audio_calls [of e out m a uid "w\<lparr>console := console w @ [line]\<rparr>"]
    by (cases "save_audio e out m a uid (w\<lparr>console := console w @ [line]\<rparr>)")
       (auto simp: try_catch_def)
  show ?thesis
    using handled
    by (auto simp: process_update_def Let_def split: option.splits sum.splits list.splits)
qed

lemma process_updates_calls:
  "\<exists>new. calls (snd (state_of (process_updates e outs i us (c, w)))) = calls w @ new"
proof (induction us arbitrary: i c w)
  case Nil
  show ?case by simp
next
  case (Cons u us)
  obtain new1 where one: "calls (state_of (process_update e (outs i) u w)) = calls w @ new1"
    using process_update_calls by blast
  show ?case
  proof (cases "process_update e (outs i) u w")
    case (Completed w')
    with one Cons.IH [of "Suc i" "update_id u" w'] show ?thesis
      by (auto simp: Let_def)
  next
    case (Thrown err w')
    with one show ?thesis by (simp add: Let_def)
  qed
qed

lemma try_catch_backoff_calls:
  "calls (snd (state_of (try_catch b backoff))) = calls (snd (state_of b))"
  by (cases b) (auto simp: try_catch_def backoff_def split: prod.splits)

lemma poll_iteration_request:
  "\<exists>new. calls (snd (state_of (poll_iteration e r (c, w)))) = calls w @ GetUpdates (c + 1) # new"
proof -
  have "\<exists>new. calls (snd (state_of (poll_body e r (c, w)))) = calls w @ GetUpdates (c + 1) # new"
  proof (cases "tg (poll_response r)")
    case (Inl err)
    then show ?thesis by (simp add: poll_body_def Let_def)
  next
    case (Inr result)
    show ?thesis
    proof (cases result)
      case (Reply_failed d)
      with Inr show ?thesis by (simp add: poll_body_def Let_def)
    next
      case (Reply_ok updates)
      with Inr
        process_updates_calls [of e "outsides r" 0 updates c "w\<lparr>calls := calls w @ [GetUpdates (c + 1)]\<rparr>"]
      show ?thesis
        by (auto simp: poll_body_def Let_def)
    qed
  qed
  then show ?thesis
    by (simp add: poll_iteration_def try_catch_backoff_calls)
qed

text \<open>A call of \<open>getUpdates\<close> that throws is logged and followed by the wait of 5000 milliseconds.\<close>

lemma thrown_poll_waits:
  assumes "poll_response r = Fetch_rejected \<or> (\<exists>st. poll_response r = Response st None)"
  shows "\<exists>err. poll_iteration e r (c, w) =
            Completed (c, w\<lparr>calls := calls w @ [GetUpdates (c + 1)],
                            console := console w @ [Polling_error err],
                            timeouts := timeouts w @ [5000]\<rparr>)"
proof -
  from assms obtain err where "tg (poll_response r) = Inl err"
    by (auto simp: tg_def)
  then have "poll_iteration e r (c, w) =
            Completed (c, w\<lparr>calls := calls w @ [GetUpdates (c + 1)],
                            console := console w @ [Polling_error err],
                            timeouts := timeouts w @ [5000]\<rparr>)"
    by (simp add: poll_iteration_def poll_body_def try_catch_def backoff_def Let_def)
  then show ?thesis by blast
qed

section \<open>The claims\<close>

text \<open>
  C1, as amended. When the bot token is set, the update identifiers are not negative and
  arrive in ascending order and no look-up of the target user throws, the loop is still polling after any
  sequence of answers and \<open>lastUpdateId\<close> is the largest \<open>update_id\<close> seen in them (0 when
  none was seen), whatever fails in the download, the upload, the insert or the
  acknowledgment of single updates. For every update the loop reaches, \<open>lastUpdateId\<close> is
  that update's identifier afterwards, whether handling the update completes or throws.
\<close>

theorem cursor_is_maximum_seen:
  assumes "or_string (TELEGRAM_BOT_TOKEN e) [] \<noteq> []"
    and "\<forall>r \<in> set rounds. \<forall>j < length (updates_of r). \<exists>rows. users_query (outsides r j) = Inr rows"
    and "sorted (0 # seen_ids rounds)"
  shows "(\<exists>w'. pollTelegramUpdates e rounds w = Polling (Max (set (0 # seen_ids rounds))) w')
       \<and> fst (state_of (process_updates e outs i [u] (c, w0))) = update_id u"
proof
  from poll_loop_last [OF assms(2), of e 0 "w\<lparr>console := console w @ [Starting_polling]\<rparr>"]
  obtain w' where "poll_loop e rounds (0, w\<lparr>console := console w @ [Starting_polling]\<rparr>)
      = Completed (last (0 # seen_ids rounds), w')"
    by blast
  moreover have "last (0 # seen_ids rounds) = Max (set (0 # seen_ids rounds))"
    using assms(3) by (rule sorted_last_Max)
  ultimately show "\<exists>w'. pollTelegramUpdates e rounds w = Polling (Max (set (0 # seen_ids rounds))) w'"
    using assms(1) by (simp add: pollTelegramUpdates_def Let_def)
next
  show "fst (state_of (process_updates e outs i [u] (c, w0))) = update_id u"
    by (simp add: Let_def split: completion.splits)
qed

theorem cursor_is_maximum_seen_witness:
  "seen_ids [round_two_updates, round_bad_gateway] = [3, 4] \<and>
   cursor_of (pollTelegramUpdates sample_env [round_two_updates, round_bad_gateway] empty_world) = Some 4"
proof -
  have ids: "seen_ids [round_two_updates, round_bad_gateway] = [3, 4]"
    by (simp add: seen_ids_def updates_of_def tg_def round_two_updates_def round_bad_gateway_def
                  bare_update_def voice_update_def)
  have token: "or_string (TELEGRAM_BOT_TOKEN sample_env) [] \<noteq> []"
    by (simp add: or_string_def sample_env_def)
  have lookups: "\<forall>r \<in> set [round_two_updates, round_bad_gateway].
      \<forall>j < length (updates_of r). \<exists>rows. users_query (outsides r j) = Inr rows"
    by (simp add: round_two_updates_def round_bad_gateway_def always_calm_def calm_def)
  have ascending: "sorted (0 # seen_ids [round_two_updates, round_bad_gateway])"
    by (simp add: ids)
  from cursor_is_maximum_seen [OF token lookups ascending, of empty_world always_calm 0 "bare_update 3" 0 empty_world]
  have "\<exists>w'. pollTelegramUpdates sample_env [round_two_updates, round_bad_gateway] empty_world
           = Polling (Max (set (0 # [3, 4]))) w'"
    unfolding ids by (rule conjunct1)
  then show ?thesis
    by (auto simp: ids)
qed

text \<open>
  C1 as stated fails: one answer brings the updates 1 and 2, the database is down when
  the target user of update 1 is looked up, the exception leaves the \<open>for\<close> loop, and
  \<open>lastUpdateId\<close> is 1 while the largest identifier seen is 2.
\<close>

theorem cursor_below_maximum_counterexample:
  "cursor_of (pollTelegramUpdates sample_env [round_database_down] empty_world) = Some 1 \<and>
   Max (set (seen_ids [round_database_down])) = 2"
proof -
  have allowed: "allowedUsers sample_env = [''42'', ''77'']"
    by code_simp
  have shown: "toString 42 = ''42''"
    by code_simp
  have "process_update sample_env (database_down 0) (voice_update 1 42)
          (empty_world\<lparr>console := [Starting_polling], calls := [GetUpdates 1]\<rparr>)
        = Thrown Database_error
           (empty_world\<lparr>console := [Starting_polling, Received_audio 42], calls := [GetUpdates 1]\<rparr>)"
    by (simp add: process_update_def allowed shown voice_update_def voice_message_def audio_of_def
                  database_down_def calm_def empty_world_def Let_def)
  then have "cursor_of (pollTelegramUpdates sample_env [round_database_down] empty_world) = Some 1"
    by (simp add: pollTelegramUpdates_def poll_iteration_def poll_body_def try_catch_def backoff_def
                  tg_def round_database_down_def or_string_def sample_env_def empty_world_def Let_def
                  voice_update_def)
  moreover have "Max (set (seen_ids [round_database_down])) = 2"
    by (simp add: seen_ids_def updates_of_def tg_def round_database_down_def voice_update_def)
  ultimately show ?thesis by simp
qed

text \<open>
  C2, as amended. The table is taken with the uniqueness of the pair of user and file
  identifier that the specification gives it. Handling any update keeps at most one row
  for any such pair. When an update brings audio whose row for the target user already
  exists, as on a second delivery of the same \<open>file_id\<close>, the exception of the inner
  \<open>try\<close> is caught there: handling the update completes, the table is unchanged and still
  holds the one row, no acknowledgment is sent and no wait is made, the console gets the
  line of a processing error, and the loop goes on with the next update. When the insert
  itself is reached, the error logged is the uniqueness violation.
\<close>

theorem duplicate_import_caught:
  assumes "message u = Some m" and "from_user m = Some sender"
    and "allowedUsers e = [] \<or> toString (user_id sender) \<in> set (allowedUsers e)"
    and "audio_of m = Some a"
    and "users_query (outs i) = Inr (uid # rest)"
    and "length (rows_for uid (''tg-'' @ file_id a) w) = 1"
  shows "(length (rows_for user fid w0) \<le> 1
            \<longrightarrow> length (rows_for user fid (state_of (process_update e out u0 w0))) \<le> 1)
       \<and> (\<exists>w' err. process_update e (outs i) u w = Completed w' \<and>
             recordings_table w' = recordings_table w \<and>
             length (rows_for uid (''tg-'' @ file_id a) w') = 1 \<and>
             sent_messages w' = sent_messages w \<and> timeouts w' = timeouts w \<and>
             console w' = console w @ [Received_audio (user_id sender), Processing_error err] \<and>
             ((\<exists>st path st' bytes. getFile_response (outs i) = Response st (Some (Reply_ok path))
                  \<and> file_response (outs i) = Response st' (Some bytes))
              \<and> provider_failure (outs i) = None
              \<and> (\<exists>location. upload_outcome (outs i) = Inr location)
              \<and> insert_failure (outs i) = None
              \<longrightarrow> err = Unique_violation) \<and>
             process_updates e outs i (u # us) (c, w) = process_updates e outs (Suc i) us (update_id u, w'))"
proof (intro conjI impI)
  assume "length (rows_for user fid w0) \<le> 1"
  then show "length (rows_for user fid (state_of (process_update e out u0 w0))) \<le> 1"
    by (rule process_update_rows_for)
next
  let ?w1 = "w\<lparr>console := console w @ [Received_audio (user_id sender)]\<rparr>"
  from assms(6) have "rows_for uid (''tg-'' @ file_id a) w \<noteq> []"
    by auto
  then have "\<exists>r' \<in> set (recordings_table ?w1). userId r' = uid \<and> plaudFileId r' = ''tg-'' @ file_id a"
    by (auto simp: rows_for_def filter_empty_conv)
  from save_audio_duplicate [OF this, of e "outs i" m]
  obtain err w2 where thrown: "save_audio e (outs i) m a uid ?w1 = Thrown err w2"
    and table: "recordings_table w2 = recordings_table ?w1"
    and sends: "filter is_sendMessage (calls w2) = filter is_sendMessage (calls ?w1)"
    and lines: "console w2 = console ?w1" and waits: "timeouts w2 = timeouts ?w1"
    and reached: "(\<exists>st path st' bytes. getFile_response (outs i) = Response st (Some (Reply_ok path))
                  \<and> file_response (outs i) = Response st' (Some bytes))
              \<and> provider_failure (outs i) = None
              \<and> (\<exists>location. upload_outcome (outs i) = Inr location)
              \<and> insert_failure (outs i) = None
              \<longrightarrow> err = Unique_violation"
    by blast
  let ?w' = "w2\<lparr>console := console w2 @ [Processing_error err]\<rparr>"
  have completes: "process_update e (outs i) u w = Completed ?w'"
    using assms(1-5) thrown by (auto simp: process_update_def Let_def try_catch_def)
  have "recordings_table ?w' = recordings_table w"
    using table by simp
  moreover have "length (rows_for uid (''tg-'' @ file_id a) ?w') = 1"
    using table assms(6) by (simp add: rows_for_def)
  moreover have "sent_messages ?w' = sent_messages w"
    using sends by (simp add: sent_messages_def)
  moreover have "timeouts ?w' = timeouts w"
    using waits by simp
  moreover have "console ?w' = console w @ [Received_audio (user_id sender), Processing_error err]"
    using lines by simp
  moreover have "process_updates e outs i (u # us) (c, w) = process_updates e outs (Suc i) us (update_id u, ?w')"
    using completes by simp
  ultimately show "\<exists>w' err. process_update e (outs i) u w = Completed w' \<and>
             recordings_table w' = recordings_table w \<and>
             length (rows_for uid (''tg-'' @ file_id a) w') = 1 \<and>
             sent_messages w' = sent_messages w \<and> timeouts w' = timeouts w \<and>
             console w' = console w @ [Received_audio (user_id sender), Processing_error err] \<and>
             ((\<exists>st path st' bytes. getFile_response (outs i) = Response st (Some (Reply_ok path))
                  \<and> file_response (outs i) = Response st' (Some bytes))
              \<and> provider_failure (outs i) = None
              \<and> (\<exists>location. upload_outcome (outs i) = Inr location)
              \<and> insert_failure (outs i) = None
              \<longrightarrow> err = Unique_violation) \<and>
             process_updates e outs i (u # us) (c, w) = process_updates e outs (Suc i) us (update_id u, w')"
    using completes reached by blast
qed

theorem duplicate_import_caught_witness:
  "length (rows_for ''user-1'' ''tg-AwACAg'' world_after_first) = 1 \<and>
   (\<exists>w'. process_update sample_env (second_delivery 0) (voice_update 2 42) world_after_first = Completed w' \<and>
      recordings_table w' = recordings_table world_after_first \<and>
      length (rows_for ''user-1'' ''tg-AwACAg'' w') = 1 \<and>
      sent_messages w' = sent_messages world_after_first \<and>
      console w' = console world_after_first @ [Received_audio 42, Processing_error Unique_violation])"
proof -
  have sender: "allowedUsers sample_env = [] \<or>
      toString (user_id \<lparr>user_id = 42, username = None\<rparr>) \<in> set (allowedUsers sample_env)"
    by (simp add: sample_allowed sample_shown)
  have row: "length (rows_for ''user-1'' (''tg-'' @ file_id
      \<lparr>file_id = ''AwACAg'', file_duration = 12, mime_type = None, file_size = None, file_name = None\<rparr>)
      world_after_first) = 1"
    by (simp add: rows_for_def world_after_first_eq)
  have reached: "(\<exists>st path st' bytes. getFile_response (second_delivery 0) = Response st (Some (Reply_ok path))
                  \<and> file_response (second_delivery 0) = Response st' (Some bytes))
              \<and> provider_failure (second_delivery 0) = None
              \<and> (\<exists>location. upload_outcome (second_delivery 0) = Inr location)
              \<and> insert_failure (second_delivery 0) = None"
    by (simp add: second_delivery_def calm_def)
  from duplicate_import_caught [of "voice_update 2 42" "voice_message 42"
      "\<lparr>user_id = 42, username = None\<rparr>" sample_env
      "\<lparr>file_id = ''AwACAg'', file_duration = 12, mime_type = None, file_size = None, file_name = None\<rparr>"
      second_delivery 0 "''user-1''" "[]" world_after_first "''user-1''" "''tg-AwACAg''" empty_world
      "calm ''rec1''" "bare_update 1" "[]" 0, OF _ _ sender _ _ row]
  obtain w' err where "process_update sample_env (second_delivery 0) (voice_update 2 42) world_after_first = Completed w'"
    and "recordings_table w' = recordings_table world_after_first"
    and "length (rows_for ''user-1'' ''tg-AwACAg'' w') = 1"
    and "sent_messages w' = sent_messages world_after_first"
    and "console w' = console world_after_first @ [Received_audio 42, Processing_error err]"
    and "err = Unique_violation"
    using reached
    by (auto simp: voice_update_def voice_message_def audio_of_def second_delivery_def calm_def)
  with row show ?thesis
    by auto
qed

text \<open>
  C2 as stated fails: the second delivery of the voice message is not handled as a
  success and is not without effect. Its blob is stored under a new key before the insert
  is refused, the console gets the line of a processing error, and the only
  acknowledgment ever sent is the one of the first delivery.
\<close>

theorem duplicate_import_counterexample:
  "length (rows_for ''user-1'' ''tg-AwACAg'' world_after_first) = 1 \<and>
   storage world_after_first ''telegram/user-1/1700000000000-telegram-rec2.ogg'' = None \<and>
   storage world_after_second ''telegram/user-1/1700000000000-telegram-rec2.ogg''
     = Some \<lparr>blob_bytes = [79, 103, 103, 83], blob_type = ''audio/ogg''\<rparr> \<and>
   console world_after_second
     = console world_after_first @ [Received_audio 42, Processing_error Unique_violation] \<and>
   sent_messages world_after_first = [SendMessage 900 acknowledgment 5] \<and>
   sent_messages world_after_second = [SendMessage 900 acknowledgment 5]"
  unfolding world_after_second_eq
  by (simp add: world_after_first_eq rows_for_def sent_messages_def)

text \<open>
  C3. A response to \<open>getUpdates\<close> that is not 2xx and carries a JSON body, as the Bot API
  sends it for a revoked token (401), a second poller (409) or a rate limit (429), does
  not bring the loop into its backoff: \<open>tg\<close> does not look at the status, the reply has
  \<open>ok\<close> false, nothing is thrown, and the turn ends with no line logged and no wait. As
  long as such replies come, the loop asks again at once with the same offset, turn after
  turn, where the call that throws is followed by the wait of 5000 milliseconds.
\<close>

theorem error_reply_polled_again_without_wait:
  assumes "\<forall>r \<in> set rounds. \<exists>st d. poll_response r = Response st (Some (Reply_failed d))"
  shows "poll_loop e rounds (c, w) =
           Completed (c, w\<lparr>calls := calls w @ replicate (length rounds) (GetUpdates (c + 1))\<rparr>)"
  using assms
proof (induction rounds arbitrary: w)
  case Nil
  show ?case by simp
next
  case (Cons r rs)
  from Cons.prems obtain st d where "poll_response r = Response st (Some (Reply_failed d))"
    by auto
  then have turn: "poll_iteration e r (c, w) = Completed (c, w\<lparr>calls := calls w @ [GetUpdates (c + 1)]\<rparr>)"
    by (simp add: poll_iteration_def poll_body_def try_catch_def tg_def Let_def)
  from Cons.prems have "\<forall>r \<in> set rs. \<exists>st d. poll_response r = Response st (Some (Reply_failed d))"
    by simp
  from Cons.IH [OF this, of "w\<lparr>calls := calls w @ [GetUpdates (c + 1)]\<rparr>"] turn
  show ?case
    by (simp add: replicate_append_same [symmetric])
qed

theorem error_reply_polled_again_without_wait_witness:
  "poll_response round_unauthorized = Response 401 (Some (Reply_failed ''Unauthorized'')) \<and>
   poll_loop sample_env [round_unauthorized, round_unauthorized, round_unauthorized] (0, empty_world)
     = Completed (0, empty_world\<lparr>calls := [GetUpdates 1, GetUpdates 1, GetUpdates 1]\<rparr>) \<and>
   timeouts (empty_world\<lparr>calls := [GetUpdates 1, GetUpdates 1, GetUpdates 1]\<rparr>) = [] \<and>
   console (empty_world\<lparr>calls := [GetUpdates 1, GetUpdates 1, GetUpdates 1]\<rparr>) = []"
proof -
  have reply: "poll_response round_unauthorized = Response 401 (Some (Reply_failed ''Unauthorized''))"
    by (simp add: round_unauthorized_def)
  then have "\<forall>r \<in> set [round_unauthorized, round_unauthorized, round_unauthorized].
      \<exists>st d. poll_response r = Response st (Some (Reply_failed d))"
    by simp
  from error_reply_polled_again_without_wait [OF this, of sample_env 0 empty_world] reply
  show ?thesis
    by (simp add: empty_world_def numeral_3_eq_3)
qed

text \<open>
  C4. When the allow-list is not empty and the sender's identifier is not in it, the
  update is discarded: no Recording row is created, no blob is stored, no call is made
  to the Bot API (so no acknowledgment is sent), one line is logged, nothing is thrown,
  and the loop goes on with the next update.
\<close>

theorem unauthorized_sender_discarded:
  assumes "message u = Some m" and "from_user m = Some sender"
    and "allowedUsers e \<noteq> []"
    and "toString (user_id sender) \<notin> set (allowedUsers e)"
  shows "\<exists>w'. process_update e (outs i) u w = Completed w' \<and>
           recordings_table w' = recordings_table w \<and> storage w' = storage w \<and>
           calls w' = calls w \<and> timeouts w' = timeouts w \<and>
           console w' = console w @ [Unauthorized_user (user_id sender)] \<and>
           process_updates e outs i (u # us) (c, w) = process_updates e outs (Suc i) us (update_id u, w')"
  using assms by (auto simp: process_update_def)

theorem unauthorized_sender_discarded_witness:
  "allowedUsers sample_env = [''42'', ''77''] \<and> toString 43 = ''43'' \<and>
   (\<exists>w'. process_update sample_env (always_calm 0) (voice_update 1 43) empty_world = Completed w' \<and>
      recordings_table w' = [] \<and> storage w' = Map.empty \<and> calls w' = [] \<and>
      console w' = [Unauthorized_user 43] \<and>
      process_updates sample_env always_calm 0 [voice_update 1 43] (0, empty_world) = Completed (1, w'))"
proof -
  have allowed: "allowedUsers sample_env = [''42'', ''77'']"
    by code_simp
  have shown: "toString 43 = ''43''"
    by code_simp
  have "allowedUsers sample_env \<noteq> []" "toString (user_id \<lparr>user_id = 43, username = None\<rparr>) \<notin> set (allowedUsers sample_env)"
    by (simp_all add: allowed shown)
  from unauthorized_sender_discarded [of "voice_update 1 43" "voice_message 43"
      "\<lparr>user_id = 43, username = None\<rparr>" sample_env always_calm 0 empty_world "[]" 0, OF _ _ this]
  show ?thesis
    by (auto simp add: allowed shown voice_update_def voice_message_def empty_world_def)
qed

text \<open>
  C5. For a voice message from a sender who passes the allow-list, with a duration of
  \<open>d\<close> seconds and the date \<open>T\<close> (seconds since the epoch): handling the update either
  leaves the table as it was or appends exactly one row, and that row has the duration
  \<open>d * 1000\<close> and the start and end time \<open>T * 1000\<close>, the time value of the Date made
  from \<open>T\<close>. The row is appended whenever a target user exists, none of the calls before
  the insert fails and the table holds no row for that user and file yet.
\<close>

theorem voice_recording_duration_and_times:
  assumes "message u = Some m" and "from_user m = Some sender"
    and "allowedUsers e = [] \<or> toString (user_id sender) \<in> set (allowedUsers e)"
    and "voice m = Some v"
  shows "(recordings_table (state_of (process_update e out u w)) = recordings_table w \<or>
          (\<exists>r. recordings_table (state_of (process_update e out u w)) = recordings_table w @ [r] \<and>
               duration r = file_duration v * 1000 \<and>
               startTime r = date m * 1000 \<and> endTime r = date m * 1000))
       \<and> ((\<exists>uid rest. users_query out = Inr (uid # rest) \<and> rows_for uid (''tg-'' @ file_id v) w = [])
            \<and> (\<exists>st path st' bytes. getFile_response out = Response st (Some (Reply_ok path))
                    \<and> file_response out = Response st' (Some bytes))
            \<and> provider_failure out = None \<and> (\<exists>location. upload_outcome out = Inr location)
            \<and> insert_failure out = None
          \<longrightarrow> (\<exists>r. recordings_table (state_of (process_update e out u w)) = recordings_table w @ [r] \<and>
                   duration r = file_duration v * 1000 \<and>
                   startTime r = date m * 1000 \<and> endTime r = date m * 1000))"
proof (intro conjI impI)
  have a: "audio_of m = Some v"
    using assms(4) by (simp add: audio_of_def)
  from process_update_table [of e out u w] a assms(1)
  show "recordings_table (state_of (process_update e out u w)) = recordings_table w \<or>
          (\<exists>r. recordings_table (state_of (process_update e out u w)) = recordings_table w @ [r] \<and>
               duration r = file_duration v * 1000 \<and>
               startTime r = date m * 1000 \<and> endTime r = date m * 1000)"
    by auto
next
  assume ok: "(\<exists>uid rest. users_query out = Inr (uid # rest) \<and> rows_for uid (''tg-'' @ file_id v) w = [])
            \<and> (\<exists>st path st' bytes. getFile_response out = Response st (Some (Reply_ok path))
                    \<and> file_response out = Response st' (Some bytes))
            \<and> provider_failure out = None \<and> (\<exists>location. upload_outcome out = Inr location)
            \<and> insert_failure out = None"
  have a: "audio_of m = Some v"
    using assms(4) by (simp add: audio_of_def)
  from ok obtain uid rest where q: "users_query out = Inr (uid # rest)"
    and fresh: "rows_for uid (''tg-'' @ file_id v) w = []"
    by blast
  have "\<exists>r. recordings_table (state_of (save_audio e out m v uid
            (w\<lparr>console := console w @ [Received_audio (user_id sender)]\<rparr>))) = recordings_table w @ [r] \<and>
          duration r = file_duration v * 1000 \<and> startTime r = date m * 1000 \<and> endTime r = date m * 1000"
    using ok fresh
      save_audio_appends [of out "w\<lparr>console := console w @ [Received_audio (user_id sender)]\<rparr>" uid v e m]
    by (auto simp: rows_for_def filter_empty_conv)
  then show "\<exists>r. recordings_table (state_of (process_update e out u w)) = recordings_table w @ [r] \<and>
                   duration r = file_duration v * 1000 \<and>
                   startTime r = date m * 1000 \<and> endTime r = date m * 1000"
    using assms(1-3) a q
    by (auto simp: process_update_def Let_def try_catch_table)
qed

theorem voice_recording_duration_and_times_witness:
  "\<exists>r. recordings_table (state_of (process_update sample_env (calm ''rec1'') (voice_update 1 42) empty_world)) = [r] \<and>
       duration r = 12000 \<and> startTime r = 1700000000000 \<and> endTime r = 1700000000000"
proof -
  have allowed: "allowedUsers sample_env = [''42'', ''77'']"
    by code_simp
  have shown: "toString 42 = ''42''"
    by code_simp
  have sender: "allowedUsers sample_env = [] \<or>
      toString (user_id \<lparr>user_id = 42, username = None\<rparr>) \<in> set (allowedUsers sample_env)"
    by (simp add: allowed shown)
  have calm_ok: "(\<exists>uid rest. users_query (calm ''rec1'') = Inr (uid # rest)
                    \<and> rows_for uid (''tg-'' @ ''AwACAg'') empty_world = [])
            \<and> (\<exists>st path st' bytes. getFile_response (calm ''rec1'') = Response st (Some (Reply_ok path))
                    \<and> file_response (calm ''rec1'') = Response st' (Some bytes))
            \<and> provider_failure (calm ''rec1'') = None
            \<and> (\<exists>location. upload_outcome (calm ''rec1'') = Inr location)
            \<and> insert_failure (calm ''rec1'') = None"
    by (simp add: calm_def rows_for_def empty_world_def)
  from voice_recording_duration_and_times [of "voice_update 1 42" "voice_message 42"
      "\<lparr>user_id = 42, username = None\<rparr>" sample_env
      "\<lparr>file_id = ''AwACAg'', file_duration = 12, mime_type = None, file_size = None, file_name = None\<rparr>"
      "calm ''rec1''" empty_world, OF _ _ sender] calm_ok
  show ?thesis
    by (simp add: voice_update_def voice_message_def empty_world_def)
qed

text \<open>
  C6. For a recording of the export that has a transcript text, the SRT output holds its
  cue: the cue number, then the start time and the start time plus the duration, each as
  two-digit hours, minutes and seconds and three-digit milliseconds with leading zeros
  and a comma before the milliseconds, then the text. The VTT output holds the same two
  instants in the same layout with a full stop before the milliseconds. A stamp is twelve
  characters long.
\<close>

theorem export_cue_timestamps:
  assumes "i < length recs"
    and "transcript_text (transcriptionMap ts (rec_id (recs ! i))) = txt"
    and "txt \<noteq> []"
  shows "(\<exists>pre post. srt_export recs ts =
            pre @ (toString (int i + 1) @ [CHR 0x0A]
                   @ clock_stamp (CHR '','') (startTime (recs ! i)) @ '' --> ''
                   @ clock_stamp (CHR '','') (startTime (recs ! i) + duration (recs ! i))
                   @ [CHR 0x0A] @ txt @ [CHR 0x0A, CHR 0x0A]) @ post)
       \<and> (\<exists>pre post. vtt_export recs ts =
            pre @ (clock_stamp (CHR ''.'') (startTime (recs ! i)) @ '' --> ''
                   @ clock_stamp (CHR ''.'') (startTime (recs ! i) + duration (recs ! i))
                   @ [CHR 0x0A] @ txt @ [CHR 0x0A, CHR 0x0A]) @ post)
       \<and> length (clock_stamp (CHR '','') (startTime (recs ! i))) = 12
       \<and> length (clock_stamp (CHR ''.'') (startTime (recs ! i))) = 12"
proof (intro conjI)
  let ?f = "\<lambda>(index, r). srt_entry (transcriptionMap ts) index r"
  have len: "i < length (enumerate 0 recs)"
    using assms(1) by simp
  have nth: "enumerate 0 recs ! i = (i, recs ! i)"
    using assms(1) by (simp add: nth_enumerate_eq)
  have entry: "?f (enumerate 0 recs ! i) =
      toString (int i + 1) @ [CHR 0x0A]
      @ clock_stamp (CHR '','') (startTime (recs ! i)) @ '' --> ''
      @ clock_stamp (CHR '','') (startTime (recs ! i) + duration (recs ! i))
      @ [CHR 0x0A] @ txt @ [CHR 0x0A, CHR 0x0A]"
    using assms(2,3) by (simp add: nth srt_entry_def Let_def formatSRTTime_clock_stamp)
  then have "?f (enumerate 0 recs ! i) \<noteq> []"
    by simp
  from concat_filter_nth [of i "enumerate 0 recs" ?f, OF len this] entry
  show "\<exists>pre post. srt_export recs ts =
            pre @ (toString (int i + 1) @ [CHR 0x0A]
                   @ clock_stamp (CHR '','') (startTime (recs ! i)) @ '' --> ''
                   @ clock_stamp (CHR '','') (startTime (recs ! i) + duration (recs ! i))
                   @ [CHR 0x0A] @ txt @ [CHR 0x0A, CHR 0x0A]) @ post"
    unfolding srt_export_def by metis
next
  let ?g = "vtt_entry (transcriptionMap ts)"
  have entry: "?g (recs ! i) =
      clock_stamp (CHR ''.'') (startTime (recs ! i)) @ '' --> ''
      @ clock_stamp (CHR ''.'') (startTime (recs ! i) + duration (recs ! i))
      @ [CHR 0x0A] @ txt @ [CHR 0x0A, CHR 0x0A]"
    using assms(2,3) by (simp add: vtt_entry_def Let_def formatVTTTime_clock_stamp)
  then have "?g (recs ! i) \<noteq> []"
    by simp
  from concat_filter_nth [of i recs ?g, OF assms(1) this] entry
  obtain pre post where "concat (filter (\<lambda>s. s \<noteq> []) (map ?g recs)) =
      pre @ (clock_stamp (CHR ''.'') (startTime (recs ! i)) @ '' --> ''
      @ clock_stamp (CHR ''.'') (startTime (recs ! i) + duration (recs ! i))
      @ [CHR 0x0A] @ txt @ [CHR 0x0A, CHR 0x0A]) @ post"
    by metis
  then have "vtt_export recs ts =
      (''WEBVTT'' @ [CHR 0x0A, CHR 0x0A] @ pre) @ (clock_stamp (CHR ''.'') (startTime (recs ! i)) @ '' --> ''
      @ clock_stamp (CHR ''.'') (startTime (recs ! i) + duration (recs ! i))
      @ [CHR 0x0A] @ txt @ [CHR 0x0A, CHR 0x0A]) @ post"
    by (simp add: vtt_export_def)
  then show "\<exists>pre post. vtt_export recs ts =
            pre @ (clock_stamp (CHR ''.'') (startTime (recs ! i)) @ '' --> ''
                   @ clock_stamp (CHR ''.'') (startTime (recs ! i) + duration (recs ! i))
                   @ [CHR 0x0A] @ txt @ [CHR 0x0A, CHR 0x0A]) @ post"
    by blast
next
  show "length (clock_stamp (CHR '','') (startTime (recs ! i))) = 12"
    by (simp add: clock_stamp_def two_digits_def three_digits_def)
next
  show "length (clock_stamp (CHR ''.'') (startTime (recs ! i))) = 12"
    by (simp add: clock_stamp_def two_digits_def three_digits_def)
qed

theorem export_cue_timestamps_witness:
  "(\<exists>pre post. srt_export [sample_recording] [sample_transcription] =
       pre @ (''1'' @ [CHR 0x0A] @ ''01:02:03,004 --> 01:02:15,004'' @ [CHR 0x0A] @ ''hello''
              @ [CHR 0x0A, CHR 0x0A]) @ post)
   \<and> (\<exists>pre post. vtt_export [sample_recording] [sample_transcription] =
       pre @ (''01:02:03.004 --> 01:02:15.004'' @ [CHR 0x0A] @ ''hello'' @ [CHR 0x0A, CHR 0x0A]) @ post)"
proof -
  have hello: "transcript_text (transcriptionMap [sample_transcription] (rec_id ([sample_recording] ! 0))) = ''hello''"
    by (simp add: transcript_text_def transcriptionMap_def sample_transcription_def sample_recording_def)
  have stamps:
    "clock_stamp (CHR '','') 3723004 = ''01:02:03,004''"
    "clock_stamp (CHR '','') 3735004 = ''01:02:15,004''"
    "clock_stamp (CHR ''.'') 3723004 = ''01:02:03.004''"
    "clock_stamp (CHR ''.'') 3735004 = ''01:02:15.004''"
    "toString 1 = ''1''"
    by code_simp+
  from export_cue_timestamps [of 0 "[sample_recording]" "[sample_transcription]" "''hello''", OF _ hello]
  show ?thesis
    by (simp add: sample_recording_def stamps)
qed

text \<open>
  C7. Over any number of GET calls to the poll route of a fresh process at most one loop
  is started. Once \<open>isPollingStarted\<close> is set, the next call answers that polling is
  already active and changes nothing. With a bot token the first call starts one loop,
  every later call answers that polling is already active, and the loop that was started
  stays in its polling state, so its promise never rejects and the flag is never reset.
\<close>

theorem poll_route_starts_one_loop:
  "loops_started (snd (GET_poll_calls e n fresh_runtime)) \<le> 1
   \<and> (isPollingStarted (snd (GET_poll_calls e n fresh_runtime))
        \<longrightarrow> GET_poll e (snd (GET_poll_calls e n fresh_runtime))
            = (''Polling already active'', snd (GET_poll_calls e n fresh_runtime)))
   \<and> (or_string (TELEGRAM_BOT_TOKEN e) [] \<noteq> []
        \<longrightarrow> GET_poll_calls e (Suc n) fresh_runtime
              = (''Telegram polling started'' # replicate n ''Polling already active'',
                 \<lparr>isPollingStarted = True, loops_started = 1\<rparr>)
            \<and> (\<exists>c w'. pollTelegramUpdates e rounds w = Polling c w'))"
proof (cases "or_string (TELEGRAM_BOT_TOKEN e) [] = []")
  case True
  then have "GET_poll_calls e n fresh_runtime = (replicate n ''Telegram bot not configured'', fresh_runtime)"
    by (rule GET_poll_calls_not_configured)
  with True show ?thesis
    by (simp add: fresh_runtime_def)
next
  case False
  have started: "GET_poll_calls e (Suc k) fresh_runtime
      = (''Telegram polling started'' # replicate k ''Polling already active'',
         \<lparr>isPollingStarted = True, loops_started = 1\<rparr>)" for k
    using False by (rule GET_poll_calls_fresh)
  have polls: "\<exists>c w'. pollTelegramUpdates e rounds w = Polling c w'"
    using False by (rule pollTelegramUpdates_polls)
  show ?thesis
  proof (cases n)
    case 0
    with False started [of 0] polls show ?thesis
      by (simp add: fresh_runtime_def)
  next
    case (Suc k)
    have "GET_poll_calls e n fresh_runtime
        = (''Telegram polling started'' # replicate k ''Polling already active'',
           \<lparr>isPollingStarted = True, loops_started = 1\<rparr>)"
      unfolding Suc by (rule started)
    moreover have "GET_poll e \<lparr>isPollingStarted = True, loops_started = 1\<rparr>
        = (''Polling already active'', \<lparr>isPollingStarted = True, loops_started = 1\<rparr>)"
      using False by (simp add: GET_poll_def)
    ultimately show ?thesis
      using False started [of n] polls by simp
  qed
qed

theorem poll_route_starts_one_loop_witness:
  "GET_poll_calls sample_env 3 fresh_runtime
     = ([''Telegram polling started'', ''Polling already active'', ''Polling already active''],
        \<lparr>isPollingStarted = True, loops_started = 1\<rparr>)
   \<and> loops_started (snd (GET_poll_calls sample_env 3 fresh_runtime)) \<le> 1"
proof -
  have token: "or_string (TELEGRAM_BOT_TOKEN sample_env) [] \<noteq> []"
    by (simp add: or_string_def sample_env_def)
  from poll_route_starts_one_loop [of sample_env 2 "[]" empty_world] token
  have "GET_poll_calls sample_env (Suc 2) fresh_runtime
     = (''Telegram polling started'' # replicate 2 ''Polling already active'',
        \<lparr>isPollingStarted = True, loops_started = 1\<rparr>)"
    by blast
  moreover have "Suc 2 = 3" "replicate 2 ''Polling already active'' = [''Polling already active'', ''Polling already active'']"
    by (simp_all add: numeral_2_eq_2)
  ultimately show ?thesis
    by simp
qed

text \<open>
  C8. Every POST to the upload route that answers with status 200 has appended one
  Recording row, the one it returns: its source-system file identifier is \<open>manual-\<close>
  followed by the identifier \<open>nanoid\<close> gave, its device is \<open>MANUAL\<close>, its duration is 0 and
  its start and end time are the time of the upload. Two such uploads of the same file by
  the same user, one after the other, for which \<open>nanoid\<close> gave two identifiers, leave two
  rows that differ in their source-system file identifier. An upload of an audio
  file by a signed-in user does answer 200 when neither the storage nor the insert fails
  and the identifier from \<open>nanoid\<close> is new for that user, whatever the content of the
  file is.
\<close>

theorem manual_upload_never_deduplicated:
  "(POST_upload e out req w = (answer, w') \<and> status answer = 200
      \<longrightarrow> (\<exists>r. recordings_table w' = recordings_table w @ [r] \<and> body answer = Success_payload r \<and>
               plaudFileId r = ''manual-'' @ u_nanoid out \<and> rec_id r = u_nanoid out \<and>
               deviceSn r = ''MANUAL'' \<and> duration r = 0 \<and>
               startTime r = u_now out \<and> endTime r = u_now out))
   \<and> (POST_upload e out1 req w = (answer1, w1) \<and> status answer1 = 200 \<and>
      POST_upload e out2 req w1 = (answer2, w2) \<and> status answer2 = 200 \<and>
      u_nanoid out1 \<noteq> u_nanoid out2
      \<longrightarrow> (\<exists>r1 r2. recordings_table w2 = recordings_table w @ [r1, r2] \<and> r1 \<noteq> r2 \<and>
               plaudFileId r1 = ''manual-'' @ u_nanoid out1 \<and>
               plaudFileId r2 = ''manual-'' @ u_nanoid out2))
   \<and> (session_user req = Inr (Some user) \<and> form_file req = Inr (Some f) \<and>
      (startsWith (file_type f) ''audio/'' \<or> hasValidExtension (upload_name f)) \<and>
      u_provider_failure out = None \<and> (\<exists>location. u_upload_outcome out = Inr location) \<and>
      u_insert_failure out = None \<and> rows_for user (''manual-'' @ u_nanoid out) w = []
      \<longrightarrow> status (fst (POST_upload e out req w)) = 200)"
proof (intro conjI impI)
  assume "POST_upload e out req w = (answer, w') \<and> status answer = 200"
  then have "POST_upload e out req w = (answer, w')" "status answer = 200"
    by simp_all
  from POST_upload_200 [OF this]
  show "\<exists>r. recordings_table w' = recordings_table w @ [r] \<and> body answer = Success_payload r \<and>
               plaudFileId r = ''manual-'' @ u_nanoid out \<and> rec_id r = u_nanoid out \<and>
               deviceSn r = ''MANUAL'' \<and> duration r = 0 \<and>
               startTime r = u_now out \<and> endTime r = u_now out"
    by blast
next
  assume both: "POST_upload e out1 req w = (answer1, w1) \<and> status answer1 = 200 \<and>
      POST_upload e out2 req w1 = (answer2, w2) \<and> status answer2 = 200 \<and>
      u_nanoid out1 \<noteq> u_nanoid out2"
  then have first: "POST_upload e out1 req w = (answer1, w1)" "status answer1 = 200"
    and second: "POST_upload e out2 req w1 = (answer2, w2)" "status answer2 = 200"
    and fresh: "u_nanoid out1 \<noteq> u_nanoid out2"
    by simp_all
  from POST_upload_200 [OF first] obtain r1 where
    t1: "recordings_table w1 = recordings_table w @ [r1]"
    and r1: "plaudFileId r1 = ''manual-'' @ u_nanoid out1"
    by blast
  from POST_upload_200 [OF second] obtain r2 where
    t2: "recordings_table w2 = recordings_table w1 @ [r2]"
    and r2: "plaudFileId r2 = ''manual-'' @ u_nanoid out2"
    by blast
  from fresh r1 r2 have "plaudFileId r1 \<noteq> plaudFileId r2"
    by simp
  then have "r1 \<noteq> r2" by auto
  moreover from t1 t2 have "recordings_table w2 = recordings_table w @ [r1, r2]" by simp
  ultimately show "\<exists>r1 r2. recordings_table w2 = recordings_table w @ [r1, r2] \<and> r1 \<noteq> r2 \<and>
               plaudFileId r1 = ''manual-'' @ u_nanoid out1 \<and>
               plaudFileId r2 = ''manual-'' @ u_nanoid out2"
    using r1 r2 by blast
next
  assume "session_user req = Inr (Some user) \<and> form_file req = Inr (Some f) \<and>
      (startsWith (file_type f) ''audio/'' \<or> hasValidExtension (upload_name f)) \<and>
      u_provider_failure out = None \<and> (\<exists>location. u_upload_outcome out = Inr location) \<and>
      u_insert_failure out = None \<and> rows_for user (''manual-'' @ u_nanoid out) w = []"
  then show "status (fst (POST_upload e out req w)) = 200"
    by (auto simp: POST_upload_def upload_body_def store_upload_def uploadFile_def
                   insert_recording_def rows_for_def filter_empty_conv Let_def)
qed

theorem manual_upload_never_deduplicated_witness:
  "status (fst (POST_upload sample_env (calm_upload ''up1'') (request_of (Some ''user-1'') memo_mp3) empty_world)) = 200 \<and>
   status (fst (POST_upload sample_env (calm_upload ''up2'') (request_of (Some ''user-1'') memo_mp3)
      (snd (POST_upload sample_env (calm_upload ''up1'') (request_of (Some ''user-1'') memo_mp3) empty_world)))) = 200 \<and>
   (\<exists>r1 r2. recordings_table (snd (POST_upload sample_env (calm_upload ''up2'') (request_of (Some ''user-1'') memo_mp3)
      (snd (POST_upload sample_env (calm_upload ''up1'') (request_of (Some ''user-1'') memo_mp3) empty_world))))
      = [r1, r2] \<and> r1 \<noteq> r2 \<and> plaudFileId r1 = ''manual-up1'' \<and> plaudFileId r2 = ''manual-up2'' \<and>
        duration r1 = 0 \<and> startTime r1 = 1700000200000 \<and> endTime r1 = 1700000200000)"
proof -
  let ?req = "request_of (Some ''user-1'') memo_mp3"
  let ?p1 = "POST_upload sample_env (calm_upload ''up1'') ?req empty_world"
  let ?p2 = "POST_upload sample_env (calm_upload ''up2'') ?req (snd ?p1)"
  have audio: "startsWith (file_type memo_mp3) ''audio/''"
    by (simp add: startsWith_def memo_mp3_def)
  have ok1: "status (fst ?p1) = 200"
    using manual_upload_never_deduplicated [of sample_env "calm_upload ''up1''" ?req empty_world
        "fst ?p1" "snd ?p1" "calm_upload ''up1''" "fst ?p1" "snd ?p1" "calm_upload ''up2''" "fst ?p2" "snd ?p2"
        "''user-1''" memo_mp3] audio
    by (simp add: request_of_def calm_upload_def rows_for_def empty_world_def)
  from manual_upload_never_deduplicated [of sample_env "calm_upload ''up1''" ?req empty_world
        "fst ?p1" "snd ?p1" "calm_upload ''up1''" "fst ?p1" "snd ?p1" "calm_upload ''up2''" "fst ?p2" "snd ?p2"
        "''user-1''" memo_mp3] ok1
  obtain r1 where t1: "recordings_table (snd ?p1) = recordings_table empty_world @ [r1]"
    and f1: "plaudFileId r1 = ''manual-'' @ u_nanoid (calm_upload ''up1'')" "duration r1 = 0"
       "startTime r1 = u_now (calm_upload ''up1'')" "endTime r1 = u_now (calm_upload ''up1'')"
    by auto
  have new2: "rows_for ''user-1'' (''manual-'' @ u_nanoid (calm_upload ''up2'')) (snd ?p1) = []"
    using t1 f1(1) by (simp add: rows_for_def calm_upload_def empty_world_def)
  have ok2: "status (fst ?p2) = 200"
    using manual_upload_never_deduplicated [of sample_env "calm_upload ''up2''" ?req "snd ?p1"
        "fst ?p2" "snd ?p2" "calm_upload ''up1''" "fst ?p1" "snd ?p1" "calm_upload ''up2''" "fst ?p2" "snd ?p2"
        "''user-1''" memo_mp3] audio new2
    by (simp add: request_of_def calm_upload_def)
  from manual_upload_never_deduplicated [of sample_env "calm_upload ''up2''" ?req empty_world
        "fst ?p2" "snd ?p2" "calm_upload ''up1''" "fst ?p1" "snd ?p1" "calm_upload ''up2''" "fst ?p2" "snd ?p2"
        "''user-1''" memo_mp3] ok1 ok2
  obtain q1 q2 where t2: "recordings_table (snd ?p2) = recordings_table empty_world @ [q1, q2]"
    and distinct: "q1 \<noteq> q2"
    by (auto simp: calm_upload_def)
  from manual_upload_never_deduplicated [of sample_env "calm_upload ''up2''" ?req "snd ?p1"
        "fst ?p2" "snd ?p2" "calm_upload ''up1''" "fst ?p1" "snd ?p1" "calm_upload ''up2''" "fst ?p2" "snd ?p2"
        "''user-1''" memo_mp3] ok2
  obtain r2 where t2': "recordings_table (snd ?p2) = recordings_table (snd ?p1) @ [r2]"
    and f2: "plaudFileId r2 = ''manual-'' @ u_nanoid (calm_upload ''up2'')"
    by auto
  from t1 t2 t2' have "q1 = r1" "q2 = r2"
    by simp_all
  with t2 distinct f1 f2 ok1 ok2 show ?thesis
    by (simp add: calm_upload_def empty_world_def)
qed

text \<open>
  C9, as amended. For an upload request of a signed-in user whose file has a content type
  that does not start with \<open>audio/\<close> and a name that does not end, letter case ignored,
  with one of .mp3, .wav, .m4a, .aac, .ogg, .flac, the route answers with status 400 and
  the error payload for a file that is not audio, and the world is as before. When no
  user is signed in, the answer is 401 and the world is as before. In every case neither
  the table nor the storage changes and the status is not 200.
\<close>

theorem non_audio_upload_rejected:
  assumes "form_file req = Inr (Some f)"
    and "\<not> startsWith (file_type f) ''audio/''"
    and "\<forall>ext \<in> set [''.mp3'', ''.wav'', ''.m4a'', ''.aac'', ''.ogg'', ''.flac''].
           \<not> endsWith (toLowerCase (upload_name f)) ext"
  shows "((\<exists>user. session_user req = Inr (Some user))
            \<longrightarrow> POST_upload e out req w
                = (\<lparr>status = 400, body = Error_payload ''Only audio files are allowed''\<rparr>, w))
       \<and> (session_user req = Inr None
            \<longrightarrow> POST_upload e out req w = (\<lparr>status = 401, body = Error_payload ''Unauthorized''\<rparr>, w))
       \<and> recordings_table (snd (POST_upload e out req w)) = recordings_table w
       \<and> storage (snd (POST_upload e out req w)) = storage w
       \<and> status (fst (POST_upload e out req w)) \<noteq> 200"
proof -
  have invalid: "\<not> hasValidExtension (upload_name f)"
    using assms(3) by (simp add: hasValidExtension_def validExtensions_def)
  show ?thesis
    using assms(1,2) invalid
    by (auto simp: POST_upload_def upload_body_def split: sum.splits option.splits)
qed

theorem non_audio_upload_rejected_witness:
  "POST_upload sample_env (calm_upload ''up1'') (request_of (Some ''user-1'') notes_txt) empty_world
     = (\<lparr>status = 400, body = Error_payload ''Only audio files are allowed''\<rparr>, empty_world)"
proof -
  have type: "\<not> startsWith (file_type notes_txt) ''audio/''"
    by (simp add: startsWith_def notes_txt_def)
  have name: "\<forall>ext \<in> set [''.mp3'', ''.wav'', ''.m4a'', ''.aac'', ''.ogg'', ''.flac''].
           \<not> endsWith (toLowerCase (upload_name notes_txt)) ext"
    by code_simp
  from non_audio_upload_rejected [of "request_of (Some ''user-1'') notes_txt" notes_txt
      sample_env "calm_upload ''up1''" empty_world, OF _ type name]
  show ?thesis
    by (simp add: request_of_def)
qed

text \<open>
  C9 as stated fails for a request without a session: the same text file sent by a
  caller who is not signed in is answered with 401, not 400.
\<close>

theorem non_audio_upload_unauthorized_counterexample:
  "\<not> startsWith (file_type notes_txt) ''audio/'' \<and>
   \<not> hasValidExtension (upload_name notes_txt) \<and>
   POST_upload sample_env (calm_upload ''up1'') (request_of None notes_txt) empty_world
     = (\<lparr>status = 401, body = Error_payload ''Unauthorized''\<rparr>, empty_world)"
proof -
  have "\<not> startsWith (file_type notes_txt) ''audio/''"
    by (simp add: startsWith_def notes_txt_def)
  moreover have "\<not> hasValidExtension (upload_name notes_txt)"
    by code_simp
  moreover have "POST_upload sample_env (calm_upload ''up1'') (request_of None notes_txt) empty_world
     = (\<lparr>status = 401, body = Error_payload ''Unauthorized''\<rparr>, empty_world)"
    by (simp add: POST_upload_def upload_body_def request_of_def)
  ultimately show ?thesis by simp
qed

text \<open>
  C10, as amended. Let an answer to \<open>getUpdates\<close> hold, at some position, an update that
  has no message or whose message has no sender, and let no look-up of the target user
  throw for the updates before it, so that the \<open>for\<close> loop reaches it. Then the loop
  handles the updates before it, handles this one without throwing and without changing
  the world (no Recording, no blob, no reply), and goes on with the updates behind it
  with \<open>lastUpdateId\<close> set to its \<open>update_id\<close>; when it is the last of the answer, the
  turn ends with exactly that. When the identifiers from this update on arrive in
  ascending order, \<open>lastUpdateId\<close> is at or above its \<open>update_id\<close> after this turn and
  after any further turns, and the turn that follows opens with the request for the
  updates after \<open>lastUpdateId\<close>: the update is not asked for again.
\<close>

theorem polled_update_without_sender_skipped:
  assumes "tg (poll_response r) = Inr (Reply_ok updates)"
    and "k < length updates"
    and "message (updates ! k) = None \<or> (\<exists>m. message (updates ! k) = Some m \<and> from_user m = None)"
    and "\<forall>j < k. \<exists>rows. users_query (outsides r j) = Inr rows"
  shows "\<exists>w_k.
           process_updates e (outsides r) 0 (take k updates)
               (c, w\<lparr>calls := calls w @ [GetUpdates (c + 1)]\<rparr>)
             = Completed (last (c # map update_id (take k updates)), w_k)
         \<and> process_update e (outsides r k) (updates ! k) w_k = Completed w_k
         \<and> poll_body e r (c, w)
             = process_updates e (outsides r) (Suc k) (drop (Suc k) updates) (update_id (updates ! k), w_k)
         \<and> (Suc k = length updates
              \<longrightarrow> poll_iteration e r (c, w) = Completed (update_id (updates ! k), w_k))
         \<and> (sorted (map update_id (drop k updates) @ seen_ids rs)
              \<longrightarrow> update_id (updates ! k) \<le> fst (state_of (poll_loop e (r # rs) (c, w)))
                \<and> (\<exists>new. calls (snd (state_of (poll_iteration e r' (state_of (poll_loop e (r # rs) (c, w))))))
                       = calls (snd (state_of (poll_loop e (r # rs) (c, w))))
                         @ GetUpdates (fst (state_of (poll_loop e (r # rs) (c, w))) + 1) # new))"
proof -
  let ?w1 = "w\<lparr>calls := calls w @ [GetUpdates (c + 1)]\<rparr>"
  let ?u = "updates ! k"
  let ?ck = "last (c # map update_id (take k updates))"
  have split: "updates = take k updates @ ?u # drop (Suc k) updates"
    using assms(2) by (rule id_take_nth_drop)
  have len: "length (take k updates) = k"
    using assms(2) by simp
  have "\<forall>j < length (take k updates). \<exists>rows. users_query (outsides r (0 + j)) = Inr rows"
    using assms(4) by simp
  from process_updates_last [OF this, of e c ?w1]
  obtain w_k where before: "process_updates e (outsides r) 0 (take k updates) (c, ?w1) = Completed (?ck, w_k)"
    by blast
  have skip: "process_update e (outsides r k) ?u w_k = Completed w_k"
    using assms(3) by (auto simp: process_update_def)
  have "process_updates e (outsides r) 0 (take k updates @ ?u # drop (Suc k) updates) (c, ?w1)
      = process_updates e (outsides r) (Suc k) (drop (Suc k) updates) (update_id ?u, w_k)"
    unfolding process_updates_append before using skip len by simp
  with split
  have loop: "process_updates e (outsides r) 0 updates (c, ?w1)
      = process_updates e (outsides r) (Suc k) (drop (Suc k) updates) (update_id ?u, w_k)"
    by simp
  have body: "poll_body e r (c, w)
      = process_updates e (outsides r) (Suc k) (drop (Suc k) updates) (update_id ?u, w_k)"
    using assms(1,2) loop by (auto simp: poll_body_def Let_def)
  have last: "poll_iteration e r (c, w) = Completed (update_id ?u, w_k)" if "Suc k = length updates"
    using body that by (simp add: poll_iteration_def try_catch_def)
  have later: "update_id ?u \<le> fst (state_of (poll_loop e (r # rs) (c, w)))"
    if ascending: "sorted (map update_id (drop k updates) @ seen_ids rs)"
  proof -
    obtain c1 w1 where turn: "poll_iteration e r (c, w) = Completed (c1, w1)"
      using poll_iteration_completes [of e r "(c, w)"] by (metis surj_pair)
    have "c1 = fst (state_of (poll_body e r (c, w)))"
      using turn by (metis fst_conv poll_iteration_def state_of_simps(1) try_catch_backoff_cursor)
    then have "c1 \<in> set (update_id ?u # map update_id (drop (Suc k) updates))"
      unfolding body by (simp only: process_updates_cursor_in)
    then have c1: "c1 \<in> set (map update_id (drop k updates))"
      using assms(2) by (simp add: Cons_nth_drop_Suc [symmetric])
    have "fst (state_of (poll_loop e (r # rs) (c, w))) = fst (state_of (poll_loop e rs (c1, w1)))"
      using turn by simp
    moreover have "fst (state_of (poll_loop e rs (c1, w1))) \<in> set (c1 # seen_ids rs)"
      by (rule poll_loop_cursor_in)
    ultimately have member: "fst (state_of (poll_loop e (r # rs) (c, w)))
        \<in> set (map update_id (drop k updates) @ seen_ids rs)"
      using c1 by auto
    have "map update_id (drop k updates) @ seen_ids rs
        = update_id ?u # (map update_id (drop (Suc k) updates) @ seen_ids rs)"
      using assms(2) by (simp add: Cons_nth_drop_Suc [symmetric])
    with ascending member show ?thesis
      by auto
  qed
  have request: "\<exists>new. calls (snd (state_of (poll_iteration e r' (state_of (poll_loop e (r # rs) (c, w))))))
                       = calls (snd (state_of (poll_loop e (r # rs) (c, w))))
                         @ GetUpdates (fst (state_of (poll_loop e (r # rs) (c, w))) + 1) # new"
    using poll_iteration_request [of e r' "fst (state_of (poll_loop e (r # rs) (c, w)))"
        "snd (state_of (poll_loop e (r # rs) (c, w)))"]
    by simp
  from before skip body last later request show ?thesis
    by blast
qed

theorem polled_update_without_sender_skipped_witness:
  "updates_of round_two_updates = [bare_update 3, voice_update 4 99] \<and>
   process_update sample_env (always_calm 0) (bare_update 3) (empty_world\<lparr>calls := [GetUpdates 1]\<rparr>)
     = Completed (empty_world\<lparr>calls := [GetUpdates 1]\<rparr>) \<and>
   poll_body sample_env round_two_updates (0, empty_world)
     = process_updates sample_env always_calm 1 [voice_update 4 99] (3, empty_world\<lparr>calls := [GetUpdates 1]\<rparr>) \<and>
   3 \<le> fst (state_of (poll_loop sample_env [round_two_updates, round_bad_gateway] (0, empty_world))) \<and>
   (\<exists>new. calls (snd (state_of (poll_iteration sample_env round_nothing_new
        (state_of (poll_loop sample_env [round_two_updates, round_bad_gateway] (0, empty_world))))))
      = calls (snd (state_of (poll_loop sample_env [round_two_updates, round_bad_gateway] (0, empty_world))))
        @ GetUpdates (fst (state_of (poll_loop sample_env [round_two_updates, round_bad_gateway] (0, empty_world))) + 1)
        # new)"
proof -
  have polled: "tg (poll_response round_two_updates) = Inr (Reply_ok [bare_update 3, voice_update 4 99])"
    by (simp add: tg_def round_two_updates_def)
  have bare: "message ([bare_update 3, voice_update 4 99] ! 0) = None
      \<or> (\<exists>m. message ([bare_update 3, voice_update 4 99] ! 0) = Some m \<and> from_user m = None)"
    by (simp add: bare_update_def)
  have ascending: "sorted (map update_id (drop 0 [bare_update 3, voice_update 4 99]) @ seen_ids [round_bad_gateway])"
    by (simp add: seen_ids_def updates_of_def tg_def round_bad_gateway_def bare_update_def voice_update_def)
  from polled_update_without_sender_skipped [OF polled _ bare, of sample_env 0 empty_world
      "[round_bad_gateway]" round_nothing_new] ascending
  obtain w_k where "process_updates sample_env (outsides round_two_updates) 0 (take 0 [bare_update 3, voice_update 4 99])
        (0, empty_world\<lparr>calls := calls empty_world @ [GetUpdates (0 + 1)]\<rparr>)
      = Completed (last (0 # map update_id (take 0 [bare_update 3, voice_update 4 99])), w_k)"
    and skip: "process_update sample_env (outsides round_two_updates 0) ([bare_update 3, voice_update 4 99] ! 0) w_k
      = Completed w_k"
    and body: "poll_body sample_env round_two_updates (0, empty_world)
      = process_updates sample_env (outsides round_two_updates) (Suc 0)
          (drop (Suc 0) [bare_update 3, voice_update 4 99])
          (update_id ([bare_update 3, voice_update 4 99] ! 0), w_k)"
    and later: "update_id ([bare_update 3, voice_update 4 99] ! 0)
      \<le> fst (state_of (poll_loop sample_env [round_two_updates, round_bad_gateway] (0, empty_world)))"
    and request: "\<exists>new. calls (snd (state_of (poll_iteration sample_env round_nothing_new
        (state_of (poll_loop sample_env [round_two_updates, round_bad_gateway] (0, empty_world))))))
      = calls (snd (state_of (poll_loop sample_env [round_two_updates, round_bad_gateway] (0, empty_world))))
        @ GetUpdates (fst (state_of (poll_loop sample_env [round_two_updates, round_bad_gateway] (0, empty_world))) + 1)
        # new"
    by auto
  then have w_k: "w_k = empty_world\<lparr>calls := [GetUpdates 1]\<rparr>"
    by (simp add: empty_world_def)
  have "updates_of round_two_updates = [bare_update 3, voice_update 4 99]"
    using polled by (simp add: updates_of_def)
  then show ?thesis
    using skip body later request
    by (simp add: w_k round_two_updates_def bare_update_def)
qed

text \<open>
  C10 as stated fails for an update the \<open>for\<close> loop does not reach: one answer brings a
  voice message as update 1 and an update without a message as update 2, the database is
  down when the target user of update 1 is looked up, and the exception leaves the loop.
  \<open>lastUpdateId\<close> is 1, not 2, and the next request asks for the updates from 2 on, so
  the update without a message is fetched again.
\<close>

theorem unreached_update_fetched_again_counterexample:
  "updates_of round_bare_behind_failure = [voice_update 1 42, bare_update 2] \<and>
   message (bare_update 2) = None \<and>
   fst (state_of (poll_loop sample_env [round_bare_behind_failure] (0, empty_world))) = 1 \<and>
   calls (snd (state_of (poll_loop sample_env [round_bare_behind_failure, round_nothing_new] (0, empty_world))))
     = [GetUpdates 1, GetUpdates 2]"
proof -
  have "process_update sample_env (database_down 0) (voice_update 1 42)
          (empty_world\<lparr>calls := [GetUpdates 1]\<rparr>)
        = Thrown Database_error
           (empty_world\<lparr>console := [Received_audio 42], calls := [GetUpdates 1]\<rparr>)"
    by (simp add: process_update_def sample_allowed sample_shown voice_update_def voice_message_def
                  audio_of_def database_down_def calm_def empty_world_def Let_def)
  then have turn: "poll_iteration sample_env round_bare_behind_failure (0, empty_world)
      = Completed (1, empty_world\<lparr>console := [Received_audio 42, Polling_error Database_error],
                                    calls := [GetUpdates 1], timeouts := [5000]\<rparr>)"
    by (simp add: poll_iteration_def poll_body_def try_catch_def backoff_def tg_def
                  round_bare_behind_failure_def empty_world_def Let_def voice_update_def)
  have "updates_of round_bare_behind_failure = [voice_update 1 42, bare_update 2]"
    by (simp add: updates_of_def tg_def round_bare_behind_failure_def)
  moreover have "message (bare_update 2) = None"
    by (simp add: bare_update_def)
  moreover have "fst (state_of (poll_loop sample_env [round_bare_behind_failure] (0, empty_world))) = 1"
    using turn by simp
  moreover have "calls (snd (state_of (poll_loop sample_env [round_bare_behind_failure, round_nothing_new] (0, empty_world))))
     = [GetUpdates 1, GetUpdates 2]"
    using turn
    by (simp add: poll_iteration_def poll_body_def try_catch_def tg_def round_nothing_new_def
                  empty_world_def Let_def)
  ultimately show ?thesis by simp
qed

end
